theory Spec2Isabelle
  imports Complex_Main
begin

section \<open>Rate limiter (src/lib/redis.ts)\<close>

text \<open>
  The token bucket lives in Redis under two keys, the token count and the time of the last
  update. Redis is a map from keys to values; the values the script reads and writes are Lua
  numbers. They are taken as exact rationals first, and in the arithmetic of the script, which
  rounds, in the second part of this section.
\<close>

type_synonym redis = "string \<rightharpoonup> rat"

record RateLimiter =
  key :: string
  maxTokens :: rat
  refillRate :: rat

definition new_RateLimiter :: "string \<Rightarrow> rat \<Rightarrow> rat \<Rightarrow> RateLimiter" where
  "new_RateLimiter k maxT rate =
     \<lparr>key = ''ratelimit:'' @ k, maxTokens = maxT, refillRate = rate\<rparr>"

definition bucketKey :: "RateLimiter \<Rightarrow> string" where
  "bucketKey rl = key rl"

definition lastUpdateKey :: "RateLimiter \<Rightarrow> string" where
  "lastUpdateKey rl = key rl @ '':lastUpdate''"

text \<open>
  The Lua script of \<open>tryAcquire\<close>, run by Redis as one atomic step: \<open>requested\<close> is the
  cost, \<open>now\<close> the caller's clock in milliseconds. A missing key reads as the default
  (\<open>GET ... or ARGV[..]\<close>): a full bucket, last updated now.
\<close>

definition tryAcquire :: "RateLimiter \<Rightarrow> rat \<Rightarrow> rat \<Rightarrow> redis \<Rightarrow> bool \<times> redis" where
  "tryAcquire rl requested now db =
     (let tokens0 = (case db (bucketKey rl) of Some v \<Rightarrow> v | None \<Rightarrow> maxTokens rl);
          lastUpdate = (case db (lastUpdateKey rl) of Some v \<Rightarrow> v | None \<Rightarrow> now);
          elapsed = (now - lastUpdate) / 1000;
          tokens = min (maxTokens rl) (tokens0 + elapsed * refillRate rl)
      in if tokens \<ge> requested
         then (True, db(bucketKey rl \<mapsto> tokens - requested, lastUpdateKey rl \<mapsto> now))
         else (False, db))"



definition bucket_inv :: "RateLimiter \<Rightarrow> redis \<Rightarrow> bool" where
  "bucket_inv rl db \<longleftrightarrow>
     (case db (bucketKey rl) of None \<Rightarrow> True | Some v \<Rightarrow> 0 \<le> v \<and> v \<le> maxTokens rl)"


subsection \<open>The script in the arithmetic of its numbers\<close>

text \<open>
  Lua numbers are IEEE doubles: a sum, a difference, a product and a quotient are rounded, and
  the count the script stores is the rounded one. So the script is given once more, over an
  arithmetic: a type of numbers with the operations and the comparisons the script uses. Over
  the arithmetic of the doubles this is the script as Redis runs it; over the exact arithmetic
  it is \<open>tryAcquire\<close> above. Redis passes a number to \<open>SET\<close> with 17 significant digits,
  which read back as the same double, so the store holds numbers.
\<close>

record 'n arithmetic =
  num_add :: "'n \<Rightarrow> 'n \<Rightarrow> 'n"
  num_sub :: "'n \<Rightarrow> 'n \<Rightarrow> 'n"
  num_mul :: "'n \<Rightarrow> 'n \<Rightarrow> 'n"
  num_div :: "'n \<Rightarrow> 'n \<Rightarrow> 'n"
  num_lt :: "'n \<Rightarrow> 'n \<Rightarrow> bool"
  num_le :: "'n \<Rightarrow> 'n \<Rightarrow> bool"
  num_1000 :: 'n

text \<open>\<open>math.min\<close> of two numbers, as Lua 5.1 computes it: the second when it is less than the
  first, the first otherwise.\<close>

definition math_min :: "'n arithmetic \<Rightarrow> 'n \<Rightarrow> 'n \<Rightarrow> 'n" where
  "math_min ar a b = (if num_lt ar b a then b else a)"

text \<open>The fields of a \<open>RateLimiter\<close> with numbers of the arithmetic.\<close>

record 'n limiter =
  limiter_key :: string
  limiter_maxTokens :: 'n
  limiter_refillRate :: 'n

definition limiter_of :: "RateLimiter \<Rightarrow> rat limiter" where
  "limiter_of rl =
     \<lparr>limiter_key = key rl, limiter_maxTokens = maxTokens rl, limiter_refillRate = refillRate rl\<rparr>"

text \<open>
  The script, line by line. \<open>KEYS1\<close> and \<open>KEYS2\<close> are the two keys; \<open>tokens >= requested\<close>
  is \<open>requested <= tokens\<close> to Lua.
\<close>

definition tryAcquire_in ::
  "'n arithmetic \<Rightarrow> 'n limiter \<Rightarrow> 'n \<Rightarrow> 'n \<Rightarrow> (string \<rightharpoonup> 'n)
     \<Rightarrow> bool \<times> (string \<rightharpoonup> 'n)" where
  "tryAcquire_in ar lm requested now db =
     (let KEYS1 = limiter_key lm; KEYS2 = limiter_key lm @ '':lastUpdate'';
          tokens0 = (case db KEYS1 of Some v \<Rightarrow> v | None \<Rightarrow> limiter_maxTokens lm);
          lastUpdate = (case db KEYS2 of Some v \<Rightarrow> v | None \<Rightarrow> now);
          elapsed = num_div ar (num_sub ar now lastUpdate) (num_1000 ar);
          tokens = math_min ar (limiter_maxTokens lm)
                     (num_add ar tokens0 (num_mul ar elapsed (limiter_refillRate lm)))
      in if num_le ar requested tokens
         then (True, db(KEYS1 \<mapsto> num_sub ar tokens requested, KEYS2 \<mapsto> now))
         else (False, db))"


text \<open>The exact arithmetic of the rationals.\<close>

definition exact_arithmetic :: "rat arithmetic" where
  "exact_arithmetic =
     \<lparr>num_add = (+), num_sub = (-), num_mul = (*), num_div = (/),
      num_lt = (<), num_le = (\<le>), num_1000 = 1000\<rparr>"

text \<open>
  The arithmetic of the doubles on finite values, a double taken as the rational it denotes:
  an operation gives the exact result rounded to the nearest double, a tie to the one with
  the even significand. A double has a significand of 53 bits and an exponent of at least
  \<open>-1022\<close>, below which the doubles are evenly spaced. The largest exponent is not
  represented (a result of \<open>2 ^ 1024\<close> or more stays finite here, and is infinite to Lua),
  nor is a division by zero, which the script does not do.
\<close>

function bit_length :: "int \<Rightarrow> int" where
  "bit_length n = (if n \<le> 0 then 0 else 1 + bit_length (n div 2))"
  by pat_completeness auto
termination
  by (relation "measure nat") auto

definition pow2 :: "int \<Rightarrow> rat" where
  "pow2 e = (if 0 \<le> e then 2 ^ nat e else 1 / 2 ^ nat (- e))"

text \<open>The exponent of a number other than 0: the \<open>e\<close> with \<open>2 ^ e \<le> \<bar>x\<bar> < 2 ^ (e + 1)\<close>.\<close>

definition exponent_of :: "rat \<Rightarrow> int" where
  "exponent_of x =
     (case quotient_of \<bar>x\<bar> of (p, q) \<Rightarrow>
        (let d = bit_length p - bit_length q
         in if pow2 d \<le> \<bar>x\<bar> then d else d - 1))"

definition round_half_even :: "rat \<Rightarrow> int" where
  "round_half_even y =
     (let f = \<lfloor>y\<rfloor>; r = y - of_int f
      in if r < 1 / 2 then f else if 1 / 2 < r then f + 1 else if even f then f else f + 1)"

definition round_binary64 :: "rat \<Rightarrow> rat" where
  "round_binary64 x =
     (if x = 0 then 0
      else (let q = pow2 (max (exponent_of x) (- 1022) - 52)
            in sgn x * of_int (round_half_even (\<bar>x\<bar> / q)) * q))"

definition binary64 :: "rat arithmetic" where
  "binary64 =
     \<lparr>num_add = (\<lambda>a b. round_binary64 (a + b)),
      num_sub = (\<lambda>a b. round_binary64 (a - b)),
      num_mul = (\<lambda>a b. round_binary64 (a * b)),
      num_div = (\<lambda>a b. round_binary64 (a / b)),
      num_lt = (<), num_le = (\<le>), num_1000 = 1000\<rparr>"

text \<open>
  The limiter of the provider's interface, \<open>googleAdsRateLimiter\<close>, and a store in which the
  bucket was emptied at time 0.
\<close>

definition googleAdsRateLimiter :: RateLimiter where
  "googleAdsRateLimiter = new_RateLimiter ''google-ads'' 60 1"

definition example_empty_bucket :: "string \<rightharpoonup> rat" where
  "example_empty_bucket =
     [''ratelimit:google-ads'' \<mapsto> 0, ''ratelimit:google-ads:lastUpdate'' \<mapsto> 0]"

text \<open>The store after a call of cost 1 at time 1001 on it; the count is the double that prints
  as \<open>0.0009999999999998899\<close>.\<close>

definition example_bucket_after :: "string \<rightharpoonup> rat" where
  "example_bucket_after =
     [''ratelimit:google-ads'' \<mapsto> 2251799813685 / 2251799813685248,
      ''ratelimit:google-ads:lastUpdate'' \<mapsto> 1001]"
section \<open>Dates (the JavaScript \<open>Date\<close> operations of the pipeline)\<close>

text \<open>
  A \<open>Date\<close> holds a time value, the milliseconds since 1970-01-01T00:00:00Z; an invalid
  \<open>Date\<close> (\<open>NaN\<close>) is \<open>None\<close>. Time values are integers here; the limit of
  8.64e15 ms beyond which a \<open>Date\<close> becomes invalid is not represented, so the model covers
  chunk sizes below 10^8 days.

  \<open>setDate\<close> and \<open>getDate\<close> work in the local time of the host, \<open>new Date('YYYY-MM-DD')\<close>
  and \<open>toISOString\<close> in UTC. The host's time zone is a parameter: its offset from UTC in
  milliseconds, as a function of a UTC time value and as a function of a local time value
  (\<open>LocalTZA(t, true)\<close> and \<open>LocalTZA(t, false)\<close> of the language definition).
\<close>

definition msPerDay :: int where
  "msPerDay = 86400000"

definition msPerHour :: int where
  "msPerHour = 3600000"

record time_zone =
  offset_at_utc :: "int \<Rightarrow> int"
  offset_at_local :: "int \<Rightarrow> int"

definition LocalTime :: "time_zone \<Rightarrow> int \<Rightarrow> int" where
  "LocalTime tz t = t + offset_at_utc tz t"

definition UTC_time :: "time_zone \<Rightarrow> int \<Rightarrow> int" where
  "UTC_time tz t = t - offset_at_local tz t"

definition Day :: "int \<Rightarrow> int" where
  "Day t = t div msPerDay"

definition TimeWithinDay :: "int \<Rightarrow> int" where
  "TimeWithinDay t = t mod msPerDay"

definition MakeDate :: "int \<Rightarrow> int \<Rightarrow> int" where
  "MakeDate day time = day * msPerDay + time"

text \<open>
  \<open>d.setDate(d.getDate() + n)\<close>: the local time of \<open>d\<close> is moved by \<open>n\<close> calendar days,
  keeping the local time of day, and read back as UTC. (\<open>MakeDay\<close> of the local year, month and
  day of month plus \<open>n\<close> is the local day number plus \<open>n\<close>.)
\<close>

definition setDate_getDate_plus :: "time_zone \<Rightarrow> int \<Rightarrow> int \<Rightarrow> int" where
  "setDate_getDate_plus tz t n =
     UTC_time tz (MakeDate (Day (LocalTime tz t) + n) (TimeWithinDay (LocalTime tz t)))"

text \<open>A host in UTC, and a host in a zone at a fixed distance from UTC.\<close>

definition fixed_zone :: "int \<Rightarrow> time_zone" where
  "fixed_zone c = \<lparr>offset_at_utc = (\<lambda>t. c), offset_at_local = (\<lambda>t. c)\<rparr>"

definition UTC_zone :: time_zone where
  "UTC_zone = fixed_zone 0"

definition constant_offset :: "time_zone \<Rightarrow> bool" where
  "constant_offset tz \<longleftrightarrow>
     (\<exists>c. (\<forall>t. offset_at_utc tz t = c) \<and> (\<forall>t. offset_at_local tz t = c))"

text \<open>
  A host in America/New\_York during 2024: five hours behind UTC, four hours behind between
  2024-03-10T07:00Z and 2024-11-03T06:00Z. A local time is read with daylight saving time from
  03:00 on 10 March until 02:00 on 3 November. The zone is used for time values within 2024.
\<close>

definition dst_start_2024 :: int where
  "dst_start_2024 = 1710054000000"

definition dst_end_2024 :: int where
  "dst_end_2024 = 1730613600000"

definition New_York_2024 :: time_zone where
  "New_York_2024 =
     \<lparr>offset_at_utc = (\<lambda>t. if dst_start_2024 \<le> t \<and> t < dst_end_2024
                             then - 4 * msPerHour else - 5 * msPerHour),
      offset_at_local = (\<lambda>t. if dst_start_2024 - 4 * msPerHour \<le> t
                                  \<and> t < dst_end_2024 - 4 * msPerHour
                               then - 4 * msPerHour else - 5 * msPerHour)\<rparr>"

subsection \<open>Calendar dates\<close>

text \<open>The day number of a calendar date and back, by the language definition's formulas.\<close>

definition DaysInYear :: "int \<Rightarrow> int" where
  "DaysInYear y =
     (if y mod 4 \<noteq> 0 then 365 else if y mod 100 \<noteq> 0 then 366
      else if y mod 400 \<noteq> 0 then 365 else 366)"

definition DayFromYear :: "int \<Rightarrow> int" where
  "DayFromYear y =
     365 * (y - 1970) + (y - 1969) div 4 - (y - 1901) div 100 + (y - 1601) div 400"

definition InLeapYear :: "int \<Rightarrow> bool" where
  "InLeapYear y \<longleftrightarrow> DaysInYear y = 366"

text \<open>The day within the year on which month \<open>m\<close> (0 to 11) starts.\<close>

definition month_start :: "bool \<Rightarrow> nat \<Rightarrow> int" where
  "month_start leap m =
     [0, 31, 59, 90, 120, 151, 181, 212, 243, 273, 304, 334] ! m
       + (if leap \<and> 2 \<le> m then 1 else 0)"

definition MakeDay :: "int \<Rightarrow> nat \<Rightarrow> int \<Rightarrow> int" where
  "MakeDay y m dt = DayFromYear y + month_start (InLeapYear y) m + dt - 1"

definition YearFromDay :: "int \<Rightarrow> int" where
  "YearFromDay d =
     (let y0 = 1970 + (400 * d) div 146097
      in if d < DayFromYear y0 then y0 - 1
         else if DayFromYear (y0 + 1) \<le> d then y0 + 1 else y0)"

definition MonthFromDay :: "int \<Rightarrow> nat" where
  "MonthFromDay d =
     (let y = YearFromDay d; w = d - DayFromYear y
      in last (filter (\<lambda>m. month_start (InLeapYear y) m \<le> w) [0 ..< 12]))"

definition DateFromDay :: "int \<Rightarrow> int" where
  "DateFromDay d =
     (let y = YearFromDay d
      in d - DayFromYear y - month_start (InLeapYear y) (MonthFromDay d) + 1)"

subsection \<open>Date strings\<close>

definition digit_val :: "char \<Rightarrow> int option" where
  "digit_val c =
     (if (48::nat) \<le> of_char c \<and> of_char c \<le> (57::nat) then Some (int (of_char c) - 48)
      else None)"

fun digits_val :: "int \<Rightarrow> string \<Rightarrow> int option" where
  "digits_val acc [] = Some acc"
| "digits_val acc (c # cs) =
     (case digit_val c of None \<Rightarrow> None | Some v \<Rightarrow> digits_val (10 * acc + v) cs)"

text \<open>
  \<open>new Date(s)\<close> for the date-only form \<open>YYYY-MM-DD\<close>, which is read as midnight UTC. A
  month outside 1 to 12 or a day outside 1 to 31 gives an invalid \<open>Date\<close>; a day beyond the
  end of a month rolls over into the next month, as Node does. Strings of another form are
  outside the model and read as invalid.
\<close>

definition Date_parse :: "string \<Rightarrow> int option" where
  "Date_parse s =
     (if length s = 10 \<and> s ! 4 = CHR ''-'' \<and> s ! 7 = CHR ''-'' then
        (case (digits_val 0 (take 4 s), digits_val 0 (take 2 (drop 5 s)),
               digits_val 0 (drop 8 s)) of
           (Some y, Some m, Some d) \<Rightarrow>
             if 1 \<le> m \<and> m \<le> 12 \<and> 1 \<le> d \<and> d \<le> 31
             then Some (MakeDate (MakeDay y (nat (m - 1)) d) 0) else None
         | _ \<Rightarrow> None)
      else None)"

definition digit_char :: "int \<Rightarrow> char" where
  "digit_char v = char_of (48 + nat v)"

fun pad :: "nat \<Rightarrow> int \<Rightarrow> string" where
  "pad 0 v = []"
| "pad (Suc n) v = pad n (v div 10) @ [digit_char (v mod 10)]"

text \<open>\<open>d.toISOString().split('T')[0]\<close>: the UTC calendar date of a valid \<open>Date\<close>.\<close>

definition iso_date :: "int \<Rightarrow> string" where
  "iso_date t =
     (let d = Day t; y = YearFromDay d
      in (if 0 \<le> y \<and> y \<le> 9999 then pad 4 y
          else (if y < 0 then ''-'' else ''+'') @ pad 6 \<bar>y\<bar>)
         @ ''-'' @ pad 2 (int (MonthFromDay d) + 1) @ ''-'' @ pad 2 (DateFromDay d))"

section \<open>Splitting a date range (src/workers/sync-processor.ts)\<close>

record chunk =
  chunk_from :: string
  chunk_to :: string

text \<open>
  The loop of \<open>splitDateRange\<close>, on the time values of \<open>chunkStart\<close> and \<open>end\<close>; the
  list holds the time values of \<open>chunkStart\<close> and \<open>chunkEnd\<close> at each \<open>push\<close>. The loop
  need not end (for a chunk size below 1 it never does), hence the result is an option.
\<close>

partial_function (option) split_loop ::
  "time_zone \<Rightarrow> int \<Rightarrow> int \<Rightarrow> int \<Rightarrow> (int \<times> int) list \<Rightarrow> (int \<times> int) list option" where
  "split_loop tz chunkStart endT maxDaysPerChunk chunks =
     (if chunkStart \<le> endT then
        (let chunkEnd0 = setDate_getDate_plus tz chunkStart (maxDaysPerChunk - 1);
             chunkEnd = (if chunkEnd0 > endT then endT else chunkEnd0)
         in split_loop tz (setDate_getDate_plus tz chunkEnd 1) endT maxDaysPerChunk
              (chunks @ [(chunkStart, chunkEnd)]))
      else Some chunks)"

declare split_loop.simps [code]

text \<open>
  \<open>splitDateRange\<close>: an invalid start or end makes the loop condition false at once. Each
  pushed pair is rendered as its two ISO dates.
\<close>

definition splitDateRange :: "time_zone \<Rightarrow> string \<Rightarrow> string \<Rightarrow> int \<Rightarrow> chunk list option" where
  "splitDateRange tz startDate endDate maxDaysPerChunk =
     (case (Date_parse startDate, Date_parse endDate) of
        (Some start, Some endT) \<Rightarrow>
          map_option (map (\<lambda>(a, b). \<lparr>chunk_from = iso_date a, chunk_to = iso_date b\<rparr>))
            (split_loop tz start endT maxDaysPerChunk [])
      | _ \<Rightarrow> Some [])"

text \<open>The calendar days a pushed pair covers, by its UTC dates.\<close>

definition chunk_days :: "int \<times> int \<Rightarrow> int set" where
  "chunk_days c = {Day (fst c) .. Day (snd c)}"

text \<open>The calendar days between the two dates of a returned chunk, and chunks without a common day.\<close>

definition chunk_interval :: "chunk \<Rightarrow> int set" where
  "chunk_interval c =
     (case (Date_parse (chunk_from c), Date_parse (chunk_to c)) of
        (Some a, Some b) \<Rightarrow> {Day a .. Day b}
      | _ \<Rightarrow> {})"

fun disjoint_chunks :: "chunk list \<Rightarrow> bool" where
  "disjoint_chunks [] = True"
| "disjoint_chunks (c # cs) =
     ((\<forall>d \<in> set cs. chunk_interval c \<inter> chunk_interval d = {}) \<and> disjoint_chunks cs)"

text \<open>
  The chunks, as pairs of day numbers, that cut the days \<open>a\<close> to \<open>b\<close> into runs of \<open>m\<close>
  days, the last run ending at \<open>b\<close>.
\<close>

fun day_tiling :: "int \<Rightarrow> int \<Rightarrow> int \<Rightarrow> (int \<times> int) list \<Rightarrow> bool" where
  "day_tiling a b m [] \<longleftrightarrow> b < a"
| "day_tiling a b m (c # cs) \<longleftrightarrow>
     fst c = a \<and> a \<le> b \<and> snd c = min (a + m - 1) b \<and> day_tiling (snd c + 1) b m cs"

definition at_midnight :: "int \<times> int \<Rightarrow> int \<times> int" where
  "at_midnight c = (fst c * msPerDay, snd c * msPerDay)"

section \<open>Access tokens (src/lib/google-ads.ts)\<close>

text \<open>
  A thrown value is an \<open>Error\<close> with its message, or some other value. A call that may throw
  returns a sum, \<open>Inl\<close> the thrown value.
\<close>

datatype thrown = Error string | NotAnError

definition message_or :: "string \<Rightarrow> thrown \<Rightarrow> string" where
  "message_or dflt e = (case e of Error m \<Rightarrow> m | NotAnError \<Rightarrow> dflt)"

datatype ConnectionStatus = ACTIVE | EXPIRED | DISCONNECTED

record Connection =
  conn_id :: string
  accessTokenEnc :: string
  refreshTokenEnc :: string
  accessTokenExpiry :: "int option"
  lastRefreshedAt :: "int option"
  conn_status :: ConnectionStatus
  conn_errorMessage :: "string option"

text \<open>
  The \<open>connection\<close> table, with \<open>findUnique\<close> and \<open>update\<close> by id. Calls of the
  persistence store are taken to reach the store.
\<close>

definition connection_findUnique :: "string \<Rightarrow> Connection list \<Rightarrow> Connection option" where
  "connection_findUnique cid conns = find (\<lambda>c. conn_id c = cid) conns"













definition example_connection :: Connection where
  "example_connection =
     \<lparr>conn_id = ''c1'', accessTokenEnc = ''ssecca'', refreshTokenEnc = ''hserfer'',
      accessTokenExpiry = Some 1700000100000, lastRefreshedAt = None,
      conn_status = ACTIVE, conn_errorMessage = None\<rparr>"

section \<open>The warehouse and the queue\<close>

text \<open>
  The tables the pipeline reads and writes, each a list of rows, and the queue of sync jobs.
  Only the columns the modelled code touches are kept. A row created by the store gets its id
  from the store: \<open>id_counter\<close> counts the ids given out so far. The account status
  \<open>NOT_SYNCED\<close> stands for the source's \<open>PENDING\<close>, a name the job statuses also use.
\<close>

datatype Provider = GOOGLE_ADS | META_ADS | TIKTOK_ADS

datatype AccountSyncStatus = NOT_SYNCED | SYNCING | SYNCED | ERROR

datatype SyncJobStatus = PENDING | RUNNING | COMPLETED | FAILED | CANCELLED

datatype DimensionStatus = ENABLED | PAUSED | REMOVED | UNKNOWN

record AdAccount =
  acc_id :: string
  acc_organizationId :: string
  acc_connectionId :: string
  acc_externalId :: string
  acc_provider :: Provider
  isEnabled :: bool
  syncStatus :: AccountSyncStatus
  lastSyncedAt :: "int option"

record job_metrics =
  metrics_rowsProcessed :: nat
  metrics_durationMs :: int

record SyncJob =
  job_id :: string
  job_adAccountId :: string
  jobType :: string
  job_status :: SyncJobStatus
  dateFrom :: int
  dateTo :: int
  createdAt :: int
  startedAt :: "int option"
  completedAt :: "int option"
  job_errorMessage :: "string option"
  metrics :: "job_metrics option"

record Campaign =
  camp_id :: string
  camp_adAccountId :: string
  camp_externalId :: string
  camp_name :: string
  camp_status :: DimensionStatus

record AdGroup =
  ag_id :: string
  ag_adAccountId :: string
  ag_campaignId :: string
  ag_externalId :: string
  ag_name :: string
  ag_status :: DimensionStatus

text \<open>The grain key of a metrics fact and its measure columns.\<close>

record grain_key =
  key_date :: int
  key_provider :: Provider
  key_adAccountId :: string
  key_campaignId :: string
  key_adGroupId :: "string option"
  key_adId :: "string option"

record measures =
  impressions :: int
  clicks :: int
  spend :: rat
  conversions :: rat
  conversionValue :: rat

record MetricsFact =
  fact_key :: grain_key
  fact_measures :: measures

text \<open>The payload of a queued sync job (\<open>SyncJobData\<close> of src/lib/queue.ts) and a queue entry.\<close>

record SyncJobData =
  data_type :: string
  data_adAccountId :: string
  data_connectionId :: string
  data_customerId :: string
  data_dateFrom :: string
  data_dateTo :: string
  data_provider :: Provider
  data_organizationId :: string
  initiatedBy :: "string option"

record queue_job =
  queue_jobId :: "string option"
  queue_priority :: "nat option"
  queue_data :: SyncJobData

record world =
  connections :: "Connection list"
  adAccounts :: "AdAccount list"
  syncJobs :: "SyncJob list"
  campaigns :: "Campaign list"
  adGroups :: "AdGroup list"
  metricsFacts :: "MetricsFact list"
  syncQueue :: "queue_job list"
  id_counter :: nat

text \<open>
  \<open>addSyncJob\<close>: the queue takes the entry, unless it already holds one with the same job id.
\<close>

definition addSyncJob ::
  "SyncJobData \<Rightarrow> nat option \<Rightarrow> string option \<Rightarrow> queue_job list \<Rightarrow> queue_job list" where
  "addSyncJob data priority jobId q =
     (if jobId \<noteq> None \<and> list_ex (\<lambda>e. queue_jobId e = jobId) q then q
      else q @ [\<lparr>queue_jobId = jobId, queue_priority = priority, queue_data = data\<rparr>])"

definition adAccount_exists :: "string \<Rightarrow> AdAccount list \<Rightarrow> bool" where
  "adAccount_exists aid accs = list_ex (\<lambda>a. acc_id a = aid) accs"

definition adAccount_update ::
  "string \<Rightarrow> (AdAccount \<Rightarrow> AdAccount) \<Rightarrow> AdAccount list \<Rightarrow> AdAccount list" where
  "adAccount_update aid f accs = map (\<lambda>a. if acc_id a = aid then f a else a) accs"

definition syncJob_updateMany ::
  "(SyncJob \<Rightarrow> bool) \<Rightarrow> (SyncJob \<Rightarrow> SyncJob) \<Rightarrow> SyncJob list \<Rightarrow> SyncJob list" where
  "syncJob_updateMany P f jobs = map (\<lambda>j. if P j then f j else j) jobs"

section \<open>Manual sync (POST /api/sync/manual)\<close>

text \<open>The request body the schema accepts: three strings, the dates of the form
  \<open>dddd-dd-dd\<close>. Whether a string is a UUID is decided by the validation library.\<close>

record manual_body =
  accountId :: string
  body_dateFrom :: string
  body_dateTo :: string

definition is_digit :: "char \<Rightarrow> bool" where
  "is_digit c \<longleftrightarrow> digit_val c \<noteq> None"

definition is_date_format :: "string \<Rightarrow> bool" where
  "is_date_format s \<longleftrightarrow>
     length s = 10 \<and> s ! 4 = CHR ''-'' \<and> s ! 7 = CHR ''-'' \<and>
     list_all is_digit (take 4 s) \<and> list_all is_digit (take 2 (drop 5 s)) \<and>
     list_all is_digit (drop 8 s)"

record request_env =
  is_uuid :: "string \<Rightarrow> bool"
  request_now :: int
  new_id :: "nat \<Rightarrow> string"

datatype manual_sync_response =
    Validation_failed
  | Account_not_found
  | Connection_not_active
  | Sync_in_progress string
  | Sync_queued string SyncJobStatus int int
  | Failed_to_trigger

fun status_code :: "manual_sync_response \<Rightarrow> nat" where
  "status_code Validation_failed = 400"
| "status_code Account_not_found = 404"
| "status_code Connection_not_active = 400"
| "status_code (Sync_in_progress jid) = 400"
| "status_code (Sync_queued jid st df dt) = 201"
| "status_code Failed_to_trigger = 500"

text \<open>The check for a job in progress: a job of the account, pending or running, created
  within the last five minutes.\<close>

definition is_recent_job :: "request_env \<Rightarrow> string \<Rightarrow> SyncJob \<Rightarrow> bool" where
  "is_recent_job env aid j \<longleftrightarrow>
     job_adAccountId j = aid \<and> (job_status j = PENDING \<or> job_status j = RUNNING) \<and>
     request_now env - 5 * 60 * 1000 \<le> createdAt j"

text \<open>
  The handler, after authentication; \<open>organizationId\<close> and \<open>userId\<close> are those of the
  authenticated user. An invalid date passes the schema when it has the right form; the store
  refuses it on \<open>create\<close>, which the handler answers with status 500.
\<close>

definition post_sync_manual ::
  "request_env \<Rightarrow> string \<Rightarrow> string \<Rightarrow> manual_body \<Rightarrow> world \<Rightarrow> manual_sync_response \<times> world" where
  "post_sync_manual env organizationId userId body w =
     (if \<not> (is_uuid env (accountId body) \<and> is_date_format (body_dateFrom body)
             \<and> is_date_format (body_dateTo body))
      then (Validation_failed, w)
      else
        (case find (\<lambda>a. acc_id a = accountId body \<and> acc_organizationId a = organizationId
                         \<and> isEnabled a) (adAccounts w) of
           None \<Rightarrow> (Account_not_found, w)
         | Some account \<Rightarrow>
             (case connection_findUnique (acc_connectionId account) (connections w) of
                None \<Rightarrow> (Failed_to_trigger, w)
              | Some connection \<Rightarrow>
                  if conn_status connection \<noteq> ACTIVE then (Connection_not_active, w)
                  else
                    (case find (is_recent_job env (acc_id account)) (syncJobs w) of
                       Some recentJob \<Rightarrow> (Sync_in_progress (job_id recentJob), w)
                     | None \<Rightarrow>
                         (case (Date_parse (body_dateFrom body), Date_parse (body_dateTo body)) of
                            (Some df, Some dt) \<Rightarrow>
                              (let syncJob =
                                     \<lparr>job_id = new_id env (id_counter w),
                                      job_adAccountId = acc_id account,
                                      jobType = ''MANUAL_SYNC'',
                                      job_status = PENDING,
                                      dateFrom = df, dateTo = dt,
                                      createdAt = request_now env,
                                      startedAt = None, completedAt = None,
                                      job_errorMessage = None, metrics = None\<rparr>;
                                   data =
                                     \<lparr>data_type = ''manual_sync'',
                                      data_adAccountId = acc_id account,
                                      data_connectionId = acc_connectionId account,
                                      data_customerId = acc_externalId account,
                                      data_dateFrom = body_dateFrom body,
                                      data_dateTo = body_dateTo body,
                                      data_provider = acc_provider account,
                                      data_organizationId = organizationId,
                                      initiatedBy = Some userId\<rparr>
                               in (Sync_queued (job_id syncJob) (job_status syncJob)
                                     (dateFrom syncJob) (dateTo syncJob),
                                   w\<lparr>syncJobs := syncJobs w @ [syncJob],
                                     id_counter := Suc (id_counter w),
                                     adAccounts :=
                                       adAccount_update (acc_id account)
                                         (\<lambda>a. a\<lparr>syncStatus := SYNCING\<rparr>) (adAccounts w),
                                     syncQueue :=
                                       addSyncJob data (Some 1) (Some (job_id syncJob))
                                         (syncQueue w)\<rparr>))
                          | _ \<Rightarrow> (Failed_to_trigger, w))))))"

text \<open>
  The condition of the specification: a job of the requested account, pending or running,
  whose date range has a day in common with the requested window.
\<close>

definition overlapping_active_job :: "manual_body \<Rightarrow> SyncJob \<Rightarrow> bool" where
  "overlapping_active_job body j \<longleftrightarrow>
     job_adAccountId j = accountId body \<and> (job_status j = PENDING \<or> job_status j = RUNNING) \<and>
     (case (Date_parse (body_dateFrom body), Date_parse (body_dateTo body)) of
        (Some df, Some dt) \<Rightarrow> dateFrom j \<le> dt \<and> df \<le> dateTo j
      | _ \<Rightarrow> False)"

text \<open>An example: an account with an active connection and a pending job for January 2024
  that was created ten minutes before the request; the request asks for 2024-01-15 to
  2024-02-15.\<close>

definition example_request_env :: request_env where
  "example_request_env =
     \<lparr>is_uuid = (\<lambda>s. length s = 36), request_now = 1706000000000,
      new_id = (\<lambda>n. ''job-'' @ replicate n CHR ''i'')\<rparr>"

definition example_account :: AdAccount where
  "example_account =
     \<lparr>acc_id = ''6f9619ff-8b86-4011-b42d-00c04fc964ff'', acc_organizationId = ''org1'',
      acc_connectionId = ''c1'', acc_externalId = ''1234567890'', acc_provider = GOOGLE_ADS,
      isEnabled = True, syncStatus = SYNCED, lastSyncedAt = None\<rparr>"

definition example_pending_job :: SyncJob where
  "example_pending_job =
     \<lparr>job_id = ''job-old'', job_adAccountId = ''6f9619ff-8b86-4011-b42d-00c04fc964ff'',
      jobType = ''MANUAL_SYNC'', job_status = PENDING,
      dateFrom = 1704067200000, dateTo = 1706659200000,
      createdAt = 1706000000000 - 600000,
      startedAt = None, completedAt = None, job_errorMessage = None, metrics = None\<rparr>"

definition example_world :: world where
  "example_world =
     \<lparr>connections = [example_connection], adAccounts = [example_account],
      syncJobs = [example_pending_job], campaigns = [], adGroups = [], metricsFacts = [],
      syncQueue = [], id_counter = 1\<rparr>"

definition example_body :: manual_body where
  "example_body =
     \<lparr>accountId = ''6f9619ff-8b86-4011-b42d-00c04fc964ff'',
      body_dateFrom = ''2024-01-15'', body_dateTo = ''2024-02-15''\<rparr>"

text \<open>The same, with the pending job created one minute before the request.\<close>

definition example_recent_world :: world where
  "example_recent_world =
     example_world\<lparr>syncJobs := [example_pending_job\<lparr>createdAt := 1706000000000 - 60000\<rparr>]\<rparr>"

section \<open>Processing a sync job (src/workers/sync-processor.ts)\<close>

text \<open>
  A row fetched from the provider (\<open>GoogleAdsMetrics\<close>). The counts are integers and the
  amounts exact rationals: a count that is not a number, which \<open>BigInt\<close> would refuse, is
  excluded by the types.
\<close>

record GoogleAdsMetrics =
  m_date :: string
  m_customerId :: string
  m_campaignId :: string
  m_campaignName :: string
  m_adGroupId :: "string option"
  m_adGroupName :: "string option"
  m_adId :: "string option"
  m_impressions :: int
  m_clicks :: int
  m_cost :: rat
  m_conversions :: rat
  m_conversionValue :: rat

record SyncResult =
  rowsProcessed :: nat
  dateRange_from :: string
  dateRange_to :: string
  duration :: int

text \<open>
  What \<open>processSyncJob\<close> meets outside itself: the ids the store gives to new rows, the
  outcome of the two fetches from the provider, the outcome of the cache purge, and the clock
  at each place it is read. Reporting progress to the queue is left out.
\<close>

record sync_env =
  fresh_id :: "nat \<Rightarrow> string"
  fetchCampaignPerformance ::
    "string \<Rightarrow> string \<Rightarrow> string \<Rightarrow> string \<Rightarrow> thrown + GoogleAdsMetrics list"
  fetchAdGroupPerformance ::
    "string \<Rightarrow> string \<Rightarrow> string \<Rightarrow> string \<Rightarrow> thrown + GoogleAdsMetrics list"
  cache_delPattern :: "string \<Rightarrow> thrown option"
  time_start :: int
  time_running :: int
  time_end :: int
  time_completed :: int
  time_synced :: int
  time_failed :: int

text \<open>Errors raised by the store: it refuses an invalid date, and \<open>update\<close> needs its row.
  The message texts stand for the store's own.\<close>

definition invalid_date_error :: thrown where
  "invalid_date_error = Error ''Provided Date object is invalid''"

definition record_not_found_error :: thrown where
  "record_not_found_error = Error ''Record to update not found''"

subsection \<open>Dimension and fact upserts\<close>

definition campaign_findUnique :: "string \<Rightarrow> string \<Rightarrow> Campaign list \<Rightarrow> Campaign option" where
  "campaign_findUnique aid ext cs =
     find (\<lambda>c. camp_adAccountId c = aid \<and> camp_externalId c = ext) cs"

definition campaign_upsert ::
  "string \<Rightarrow> string \<Rightarrow> Campaign \<Rightarrow> (Campaign \<Rightarrow> Campaign) \<Rightarrow> Campaign list \<Rightarrow> Campaign list" where
  "campaign_upsert aid ext created upd cs =
     (if campaign_findUnique aid ext cs = None then cs @ [created]
      else map (\<lambda>c. if camp_adAccountId c = aid \<and> camp_externalId c = ext then upd c else c) cs)"

definition adGroup_findUnique :: "string \<Rightarrow> string \<Rightarrow> AdGroup list \<Rightarrow> AdGroup option" where
  "adGroup_findUnique aid ext gs =
     find (\<lambda>g. ag_adAccountId g = aid \<and> ag_externalId g = ext) gs"

definition adGroup_upsert ::
  "string \<Rightarrow> string \<Rightarrow> AdGroup \<Rightarrow> (AdGroup \<Rightarrow> AdGroup) \<Rightarrow> AdGroup list \<Rightarrow> AdGroup list" where
  "adGroup_upsert aid ext created upd gs =
     (if adGroup_findUnique aid ext gs = None then gs @ [created]
      else map (\<lambda>g. if ag_adAccountId g = aid \<and> ag_externalId g = ext then upd g else g) gs)"

definition metricsFact_findUnique :: "grain_key \<Rightarrow> MetricsFact list \<Rightarrow> MetricsFact option" where
  "metricsFact_findUnique k facts = find (\<lambda>f. fact_key f = k) facts"

text \<open>
  \<open>metricsFact.upsert\<close> as the job calls it: \<open>where\<close> the grain key, \<open>create\<close> a row with
  the key and the measures, \<open>update\<close> the five measure columns of the row.
\<close>

definition metricsFact_upsert :: "grain_key \<Rightarrow> measures \<Rightarrow> MetricsFact list \<Rightarrow> MetricsFact list" where
  "metricsFact_upsert k ms facts =
     (if metricsFact_findUnique k facts = None
      then facts @ [\<lparr>fact_key = k, fact_measures = ms\<rparr>]
      else map (\<lambda>f. if fact_key f = k
                     then f\<lparr>fact_measures :=
                            (fact_measures f)
                              \<lparr>impressions := impressions ms,
                               clicks := clicks ms,
                               spend := spend ms,
                               conversions := conversions ms,
                               conversionValue := conversionValue ms\<rparr>\<rparr>
                     else f) facts)"

definition measures_of :: "GoogleAdsMetrics \<Rightarrow> measures" where
  "measures_of metric =
     \<lparr>impressions = m_impressions metric, clicks = m_clicks metric, spend = m_cost metric,
      conversions = m_conversions metric, conversionValue = m_conversionValue metric\<rparr>"

subsection \<open>The two passes\<close>

text \<open>
  One turn of the loop over the campaign rows, on the store and the row count; \<open>Some\<close> is a
  thrown error, with the store as it was when the error was thrown.
\<close>

definition campaign_metric_step ::
  "sync_env \<Rightarrow> SyncJobData \<Rightarrow> GoogleAdsMetrics \<Rightarrow> world \<times> nat \<Rightarrow> thrown option \<times> world \<times> nat" where
  "campaign_metric_step env job metric s =
     (let w = fst s; totalRows = snd s; adAccountId = data_adAccountId job;
          created =
            \<lparr>camp_id = fresh_id env (id_counter w),
             camp_adAccountId = adAccountId,
             camp_externalId = m_campaignId metric,
             camp_name = m_campaignName metric,
             camp_status = UNKNOWN\<rparr>;
          cs = campaign_upsert adAccountId (m_campaignId metric) created
                 (\<lambda>c. c\<lparr>camp_name := m_campaignName metric\<rparr>) (campaigns w);
          w1 = (if campaign_findUnique adAccountId (m_campaignId metric) (campaigns w) = None
                then w\<lparr>campaigns := cs, id_counter := Suc (id_counter w)\<rparr>
                else w\<lparr>campaigns := cs\<rparr>)
      in case campaign_findUnique adAccountId (m_campaignId metric) (campaigns w1) of
           None \<Rightarrow> (None, w1, totalRows)
         | Some campaign \<Rightarrow>
             (case Date_parse (m_date metric) of
                None \<Rightarrow> (Some invalid_date_error, w1, totalRows)
              | Some d \<Rightarrow>
                  (None,
                   w1\<lparr>metricsFacts :=
                        metricsFact_upsert
                          \<lparr>key_date = d, key_provider = data_provider job,
                           key_adAccountId = adAccountId, key_campaignId = camp_id campaign,
                           key_adGroupId = None, key_adId = None\<rparr>
                          (measures_of metric) (metricsFacts w1)\<rparr>,
                   Suc totalRows)))"

fun campaign_loop ::
  "sync_env \<Rightarrow> SyncJobData \<Rightarrow> GoogleAdsMetrics list \<Rightarrow> world \<times> nat \<Rightarrow> thrown option \<times> world \<times> nat" where
  "campaign_loop env job [] s = (None, fst s, snd s)"
| "campaign_loop env job (metric # rest) s =
     (case campaign_metric_step env job metric s of
        (Some e, w', n') \<Rightarrow> (Some e, w', n')
      | (None, w', n') \<Rightarrow> campaign_loop env job rest (w', n'))"

text \<open>One turn of the loop over the ad group rows. A row without an ad group id is skipped,
  and so is a row whose campaign is not in the store.\<close>

definition adGroupName_or_unknown :: "GoogleAdsMetrics \<Rightarrow> string" where
  "adGroupName_or_unknown metric =
     (case m_adGroupName metric of
        None \<Rightarrow> ''Unknown Ad Group''
      | Some n \<Rightarrow> if n = [] then ''Unknown Ad Group'' else n)"

definition adGroup_metric_step ::
  "sync_env \<Rightarrow> SyncJobData \<Rightarrow> GoogleAdsMetrics \<Rightarrow> world \<times> nat \<Rightarrow> thrown option \<times> world \<times> nat" where
  "adGroup_metric_step env job metric s =
     (let w = fst s; totalRows = snd s; adAccountId = data_adAccountId job
      in case m_adGroupId metric of
           None \<Rightarrow> (None, w, totalRows)
         | Some gid \<Rightarrow>
             if gid = [] then (None, w, totalRows)
             else
               (case campaign_findUnique adAccountId (m_campaignId metric) (campaigns w) of
                  None \<Rightarrow> (None, w, totalRows)
                | Some campaign \<Rightarrow>
                    (let created =
                           \<lparr>ag_id = fresh_id env (id_counter w),
                            ag_adAccountId = adAccountId,
                            ag_campaignId = camp_id campaign,
                            ag_externalId = gid,
                            ag_name = adGroupName_or_unknown metric,
                            ag_status = UNKNOWN\<rparr>;
                         gs = adGroup_upsert adAccountId gid created
                                (\<lambda>g. g\<lparr>ag_name := adGroupName_or_unknown metric\<rparr>) (adGroups w);
                         w1 = (if adGroup_findUnique adAccountId gid (adGroups w) = None
                               then w\<lparr>adGroups := gs, id_counter := Suc (id_counter w)\<rparr>
                               else w\<lparr>adGroups := gs\<rparr>)
                     in case adGroup_findUnique adAccountId gid (adGroups w1) of
                          None \<Rightarrow> (None, w1, totalRows)
                        | Some adGroup \<Rightarrow>
                            (case Date_parse (m_date metric) of
                               None \<Rightarrow> (Some invalid_date_error, w1, totalRows)
                             | Some d \<Rightarrow>
                                 (None,
                                  w1\<lparr>metricsFacts :=
                                       metricsFact_upsert
                                         \<lparr>key_date = d, key_provider = data_provider job,
                                          key_adAccountId = adAccountId,
                                          key_campaignId = camp_id campaign,
                                          key_adGroupId = Some (ag_id adGroup),
                                          key_adId = None\<rparr>
                                         (measures_of metric) (metricsFacts w1)\<rparr>,
                                  Suc totalRows)))))"

fun adGroup_loop ::
  "sync_env \<Rightarrow> SyncJobData \<Rightarrow> GoogleAdsMetrics list \<Rightarrow> world \<times> nat \<Rightarrow> thrown option \<times> world \<times> nat" where
  "adGroup_loop env job [] s = (None, fst s, snd s)"
| "adGroup_loop env job (metric # rest) s =
     (case adGroup_metric_step env job metric s of
        (Some e, w', n') \<Rightarrow> (Some e, w', n')
      | (None, w', n') \<Rightarrow> adGroup_loop env job rest (w', n'))"

text \<open>The ad group pass sits in a \<open>try\<close> of its own: an error of the fetch or of a turn of the
  loop is logged and the job goes on with the store and the count reached.\<close>

definition adGroup_pass :: "sync_env \<Rightarrow> SyncJobData \<Rightarrow> world \<times> nat \<Rightarrow> world \<times> nat" where
  "adGroup_pass env job s =
     (case fetchAdGroupPerformance env (data_connectionId job) (data_customerId job)
             (data_dateFrom job) (data_dateTo job) of
        Inl e \<Rightarrow> s
      | Inr adGroupMetrics \<Rightarrow>
          (case adGroup_loop env job adGroupMetrics s of (r, w', n') \<Rightarrow> (w', n')))"

subsection \<open>The job\<close>

definition job_dates :: "SyncJobData \<Rightarrow> (int \<times> int) option" where
  "job_dates job =
     (case (Date_parse (data_dateFrom job), Date_parse (data_dateTo job)) of
        (Some df, Some dt) \<Rightarrow> Some (df, dt)
      | _ \<Rightarrow> None)"

text \<open>\<open>syncJob.updateMany\<close> on the records of the job's account and dates that have one of the
  given statuses.\<close>

definition update_job_records ::
  "SyncJobData \<Rightarrow> SyncJobStatus list \<Rightarrow> (SyncJob \<Rightarrow> SyncJob) \<Rightarrow> world \<Rightarrow> thrown option \<times> world" where
  "update_job_records job statuses f w =
     (case job_dates job of
        None \<Rightarrow> (Some invalid_date_error, w)
      | Some (df, dt) \<Rightarrow>
          (None,
           w\<lparr>syncJobs :=
               syncJob_updateMany
                 (\<lambda>j. job_adAccountId j = data_adAccountId job \<and> job_status j \<in> set statuses
                       \<and> dateFrom j = df \<and> dateTo j = dt) f (syncJobs w)\<rparr>))"

definition update_account ::
  "SyncJobData \<Rightarrow> (AdAccount \<Rightarrow> AdAccount) \<Rightarrow> world \<Rightarrow> thrown option \<times> world" where
  "update_account job f w =
     (if adAccount_exists (data_adAccountId job) (adAccounts w)
      then (None, w\<lparr>adAccounts := adAccount_update (data_adAccountId job) f (adAccounts w)\<rparr>)
      else (Some record_not_found_error, w))"

text \<open>The \<open>try\<close> block up to the cache purge: marking the job running, the two passes, marking
  the job completed and the account synced.\<close>

definition sync_until_purge ::
  "sync_env \<Rightarrow> SyncJobData \<Rightarrow> world \<Rightarrow> (thrown + SyncResult) \<times> world" where
  "sync_until_purge env job w =
     (case update_job_records job [PENDING]
             (\<lambda>j. j\<lparr>job_status := RUNNING, startedAt := Some (time_running env)\<rparr>) w of
        (Some e, w1) \<Rightarrow> (Inl e, w1)
      | (None, w1) \<Rightarrow>
     (case update_account job (\<lambda>a. a\<lparr>syncStatus := SYNCING\<rparr>) w1 of
        (Some e, w2) \<Rightarrow> (Inl e, w2)
      | (None, w2) \<Rightarrow>
     (case fetchCampaignPerformance env (data_connectionId job) (data_customerId job)
             (data_dateFrom job) (data_dateTo job) of
        Inl e \<Rightarrow> (Inl e, w2)
      | Inr campaignMetrics \<Rightarrow>
     (case campaign_loop env job campaignMetrics (w2, 0) of
        (Some e, w3, n) \<Rightarrow> (Inl e, w3)
      | (None, w3, n) \<Rightarrow>
     (case adGroup_pass env job (w3, n) of
        (w4, totalRows) \<Rightarrow>
     (case update_job_records job [RUNNING]
             (\<lambda>j. j\<lparr>job_status := COMPLETED, completedAt := Some (time_completed env),
                     metrics := Some \<lparr>metrics_rowsProcessed = totalRows,
                                      metrics_durationMs = time_end env - time_start env\<rparr>\<rparr>) w4 of
        (Some e, w5) \<Rightarrow> (Inl e, w5)
      | (None, w5) \<Rightarrow>
     (case update_account job
             (\<lambda>a. a\<lparr>syncStatus := SYNCED, lastSyncedAt := Some (time_synced env)\<rparr>) w5 of
        (Some e, w6) \<Rightarrow> (Inl e, w6)
      | (None, w6) \<Rightarrow>
          (Inr \<lparr>rowsProcessed = totalRows, dateRange_from = data_dateFrom job,
                dateRange_to = data_dateTo job, duration = time_end env - time_start env\<rparr>,
           w6))))))))"

definition purge_pattern :: "SyncJobData \<Rightarrow> string" where
  "purge_pattern job = ''metrics:*'' @ data_adAccountId job @ ''*''"

text \<open>The whole \<open>try\<close> block: the cache purge comes last, then the result is returned.\<close>

definition sync_try ::
  "sync_env \<Rightarrow> SyncJobData \<Rightarrow> world \<Rightarrow> (thrown + SyncResult) \<times> world" where
  "sync_try env job w =
     (case sync_until_purge env job w of
        (Inl e, w') \<Rightarrow> (Inl e, w')
      | (Inr result, w') \<Rightarrow>
          (case cache_delPattern env (purge_pattern job) of
             Some e \<Rightarrow> (Inl e, w')
           | None \<Rightarrow> (Inr result, w')))"

text \<open>The \<open>catch\<close> block: the job's pending and running records are marked failed, the account
  is marked \<open>ERROR\<close>, and the error is thrown again. A store call that throws here replaces
  the error.\<close>

definition sync_catch ::
  "sync_env \<Rightarrow> SyncJobData \<Rightarrow> thrown \<Rightarrow> world \<Rightarrow> (thrown + SyncResult) \<times> world" where
  "sync_catch env job error w =
     (case update_job_records job [PENDING, RUNNING]
             (\<lambda>j. j\<lparr>job_status := FAILED, completedAt := Some (time_failed env),
                     job_errorMessage := Some (message_or ''Unknown error'' error)\<rparr>) w of
        (Some e, w1) \<Rightarrow> (Inl e, w1)
      | (None, w1) \<Rightarrow>
          (case update_account job (\<lambda>a. a\<lparr>syncStatus := ERROR\<rparr>) w1 of
             (Some e, w2) \<Rightarrow> (Inl e, w2)
           | (None, w2) \<Rightarrow> (Inl error, w2)))"

definition processSyncJob ::
  "sync_env \<Rightarrow> SyncJobData \<Rightarrow> world \<Rightarrow> (thrown + SyncResult) \<times> world" where
  "processSyncJob env job w =
     (case sync_try env job w of
        (Inr result, w') \<Rightarrow> (Inr result, w')
      | (Inl error, w') \<Rightarrow> sync_catch env job error w')"

text \<open>An example: the pending job of the example store is run, the provider has no rows, and
  the cache cannot be reached.\<close>

definition example_job :: SyncJobData where
  "example_job =
     \<lparr>data_type = ''manual_sync'',
      data_adAccountId = ''6f9619ff-8b86-4011-b42d-00c04fc964ff'',
      data_connectionId = ''c1'', data_customerId = ''1234567890'',
      data_dateFrom = ''2024-01-01'', data_dateTo = ''2024-01-31'',
      data_provider = GOOGLE_ADS, data_organizationId = ''org1'', initiatedBy = Some ''u1''\<rparr>"

definition example_sync_env :: sync_env where
  "example_sync_env =
     \<lparr>fresh_id = (\<lambda>n. ''id-'' @ replicate n CHR ''i''),
      fetchCampaignPerformance = (\<lambda>c cu f t. Inr []),
      fetchAdGroupPerformance = (\<lambda>c cu f t. Inr []),
      cache_delPattern = (\<lambda>p. Some (Error ''Connection is closed.'')),
      time_start = 1706000100000, time_running = 1706000100001, time_end = 1706000100500,
      time_completed = 1706000100501, time_synced = 1706000100502,
      time_failed = 1706000100503\<rparr>"

text \<open>The records of a job: those of its account and its two dates.\<close>

definition job_record :: "SyncJobData \<Rightarrow> SyncJob \<Rightarrow> bool" where
  "job_record job j \<longleftrightarrow>
     (case job_dates job of
        None \<Rightarrow> False
      | Some (df, dt) \<Rightarrow>
          job_adAccountId j = data_adAccountId job \<and> dateFrom j = df \<and> dateTo j = dt)"

text \<open>An example of a grain key and of two sets of measures for it.\<close>

definition example_key :: grain_key where
  "example_key =
     \<lparr>key_date = 1704067200000, key_provider = GOOGLE_ADS,
      key_adAccountId = ''6f9619ff-8b86-4011-b42d-00c04fc964ff'', key_campaignId = ''id-'',
      key_adGroupId = None, key_adId = None\<rparr>"

definition example_measures :: measures where
  "example_measures =
     \<lparr>impressions = 100, clicks = 5, spend = 5 / 2, conversions = 1, conversionValue = 20\<rparr>"

definition example_measures_later :: measures where
  "example_measures_later =
     \<lparr>impressions = 140, clicks = 9, spend = 4, conversions = 2, conversionValue = 35\<rparr>"


subsection \<open>The fetches of a job (src/lib/google-ads.ts)\<close>





section \<open>The ads pass of the dimensions job (\<open>processDimensionsJob\<close>, src/workers/sync-processor.ts)\<close>

text \<open>
  Of \<open>processDimensionsJob\<close> the last pass is given, the one over the ads, which sits in a
  \<open>try\<close> of its own inside the job. A row of the answer to the ads query carries the
  provider's ids of the campaign, of the ad group and of the ad, and the ad's name, type,
  status and final URLs; a row that lacks one of the three ids is excluded by the types.
\<close>

record DimensionSyncJobData =
  dim_type :: string
  dim_adAccountId :: string
  dim_connectionId :: string
  dim_customerId :: string
  dim_provider :: Provider
  dim_organizationId :: string


record Ad =
  ad_id :: string
  ad_adAccountId :: string
  ad_campaignId :: string
  ad_adGroupId :: string
  ad_externalId :: string
  ad_name :: "string option"
  ad_type :: "string option"
  ad_status :: DimensionStatus
  ad_finalUrl :: "string option"







section \<open>Properties of the rate limiter\<close>

lemma keys_distinct: "bucketKey rl \<noteq> lastUpdateKey rl"
  by (simp add: bucketKey_def lastUpdateKey_def)

lemma tryAcquire_exact:
  "tryAcquire rl requested now db =
     tryAcquire_in exact_arithmetic (limiter_of rl) requested now db"
  by (auto simp add: tryAcquire_def tryAcquire_in_def exact_arithmetic_def limiter_of_def
      math_min_def bucketKey_def lastUpdateKey_def Let_def min_def split: option.splits)

lemma round_binary64_examples:
  "round_binary64 1001 = 1001"
  "round_binary64 (1001 / 1000) = 2254051613498933 / 2251799813685248"
  "round_binary64 (2254051613498933 / 2251799813685248) = 2254051613498933 / 2251799813685248"
  "round_binary64 (2251799813685 / 2251799813685248) = 2251799813685 / 2251799813685248"
  "round_binary64 999 = 999"
  "round_binary64 (999 / 1000) = 8998192055486251 / 9007199254740992"
  "round_binary64 (8998192055486251 / 9007199254740992) = 8998192055486251 / 9007199254740992"
  "round_binary64 (9007199254740991 / 9007199254740992) = 9007199254740991 / 9007199254740992"
  by code_simp+


text \<open>
  Rounding decides a call. A bucket emptied at time 0 is asked for one token at time 1001 and
  again at time 2000: in exact arithmetic both calls are granted (one token has been refilled
  by time 1000, another by time 2000); in doubles the first call leaves
  \<open>0.0009999999999998899\<close>, the refill of the next 999 milliseconds brings the count to
  \<open>0.9999999999999999\<close>, and the second call is refused.
\<close>

lemma tryAcquire_in_binary64_example:
  "tryAcquire_in binary64 (limiter_of googleAdsRateLimiter) 1 1001 example_empty_bucket =
     (True, example_bucket_after)"
  "tryAcquire_in binary64 (limiter_of googleAdsRateLimiter) 1 2000 example_bucket_after =
     (False, example_bucket_after)"
  by (simp_all add: tryAcquire_in_def binary64_def math_min_def limiter_of_def
      googleAdsRateLimiter_def new_RateLimiter_def example_empty_bucket_def
      example_bucket_after_def round_binary64_examples Let_def)

lemma tryAcquire_exact_example:
  "fst (tryAcquire googleAdsRateLimiter 1 2000
          (snd (tryAcquire googleAdsRateLimiter 1 1001 example_empty_bucket)))"
  by (simp add: tryAcquire_def bucketKey_def lastUpdateKey_def
      googleAdsRateLimiter_def new_RateLimiter_def example_empty_bucket_def Let_def)



text \<open>
  Claim C9. The bucket invariant, a stored count between 0 and the capacity, is kept by every
  \<open>tryAcquire\<close> whose cost lies between 0 and the capacity, whatever the clock reads (also
  a clock that runs backwards) and whatever the refill rate.
\<close>

theorem tryAcquire_preserves_bucket_inv:
  assumes "bucket_inv rl db" and "0 \<le> requested" and "requested \<le> maxTokens rl"
  shows "bucket_inv rl (snd (tryAcquire rl requested now db))"
  using assms keys_distinct [of rl]
  by (auto simp add: tryAcquire_def bucket_inv_def Let_def split: option.splits)

theorem tryAcquire_preserves_bucket_inv_witness:
  "bucket_inv (new_RateLimiter ''google-ads'' 60 1)
     (snd (tryAcquire (new_RateLimiter ''google-ads'' 60 1) 1 1000
        [''ratelimit:google-ads'' \<mapsto> 2, ''ratelimit:google-ads:lastUpdate'' \<mapsto> 0]))"
proof -
  have "bucket_inv (new_RateLimiter ''google-ads'' 60 1)
     [''ratelimit:google-ads'' \<mapsto> 2, ''ratelimit:google-ads:lastUpdate'' \<mapsto> 0]"
    by (simp add: bucket_inv_def new_RateLimiter_def bucketKey_def)
  moreover have "(0::rat) \<le> 1" by simp
  moreover have "(1::rat) \<le> maxTokens (new_RateLimiter ''google-ads'' 60 1)"
    by (simp add: new_RateLimiter_def)
  ultimately show ?thesis
    by (rule tryAcquire_preserves_bucket_inv)
qed





section \<open>Properties of the date range split\<close>

lemma setDate_getDate_plus_constant:
  assumes "constant_offset tz"
  shows "setDate_getDate_plus tz t n = t + n * msPerDay"
proof -
  from assms obtain c where c: "\<And>t. offset_at_utc tz t = c" "\<And>t. offset_at_local tz t = c"
    unfolding constant_offset_def by blast
  have "(t + c) div msPerDay * msPerDay + (t + c) mod msPerDay = t + c"
    by simp
  then show ?thesis
    by (simp add: setDate_getDate_plus_def UTC_time_def LocalTime_def MakeDate_def Day_def
        TimeWithinDay_def c algebra_simps)
qed

lemma constant_offset_UTC_zone: "constant_offset UTC_zone"
  by (auto simp add: constant_offset_def UTC_zone_def fixed_zone_def)

subsection \<open>The window 2023-10-01 to 2024-01-01 in chunks of 30 days\<close>

lemma parse_example_window:
  "Date_parse ''2023-10-01'' = Some 1696118400000"
  "Date_parse ''2024-01-01'' = Some 1704067200000"
  by code_simp+

lemma split_loop_example_window:
  assumes "constant_offset tz"
  shows "split_loop tz 1696118400000 1704067200000 30 [] = Some
     [(1696118400000, 1698624000000), (1698710400000, 1701216000000),
      (1701302400000, 1703808000000), (1703894400000, 1704067200000)]"
  by (simp add: split_loop.simps setDate_getDate_plus_constant [OF assms] msPerDay_def Let_def)

lemma iso_example_window:
  "iso_date 1696118400000 = ''2023-10-01''"
  "iso_date 1698624000000 = ''2023-10-30''"
  "iso_date 1698710400000 = ''2023-10-31''"
  "iso_date 1701216000000 = ''2023-11-29''"
  "iso_date 1701302400000 = ''2023-11-30''"
  "iso_date 1703808000000 = ''2023-12-29''"
  "iso_date 1703894400000 = ''2023-12-30''"
  "iso_date 1704067200000 = ''2024-01-01''"
  by code_simp+

lemma splitDateRange_example_window:
  assumes "constant_offset tz"
  shows "splitDateRange tz ''2023-10-01'' ''2024-01-01'' 30 = Some
   [\<lparr>chunk_from = ''2023-10-01'', chunk_to = ''2023-10-30''\<rparr>,
    \<lparr>chunk_from = ''2023-10-31'', chunk_to = ''2023-11-29''\<rparr>,
    \<lparr>chunk_from = ''2023-11-30'', chunk_to = ''2023-12-29''\<rparr>,
    \<lparr>chunk_from = ''2023-12-30'', chunk_to = ''2024-01-01''\<rparr>]"
  unfolding splitDateRange_def parse_example_window
  by (simp add: split_loop_example_window [OF assms] iso_example_window)

lemma parse_example_chunks:
  "Date_parse ''2023-10-30'' = Some 1698624000000"
  "Date_parse ''2023-10-31'' = Some 1698710400000"
  "Date_parse ''2023-11-29'' = Some 1701216000000"
  "Date_parse ''2023-11-30'' = Some 1701302400000"
  "Date_parse ''2023-12-29'' = Some 1703808000000"
  "Date_parse ''2023-12-30'' = Some 1703894400000"
  by code_simp+

lemma chunk_interval_example_window:
  "chunk_interval \<lparr>chunk_from = ''2023-10-01'', chunk_to = ''2023-10-30''\<rparr> = {19631 .. 19660}"
  "chunk_interval \<lparr>chunk_from = ''2023-10-31'', chunk_to = ''2023-11-29''\<rparr> = {19661 .. 19690}"
  "chunk_interval \<lparr>chunk_from = ''2023-11-30'', chunk_to = ''2023-12-29''\<rparr> = {19691 .. 19720}"
  "chunk_interval \<lparr>chunk_from = ''2023-12-30'', chunk_to = ''2024-01-01''\<rparr> = {19721 .. 19723}"
  by (simp_all add: chunk_interval_def parse_example_window parse_example_chunks Day_def
      msPerDay_def)

text \<open>
  Claim C5, as stated, fails: the window 2023-10-01 to 2024-01-01 has 93 days, and chunks of at
  most 30 days make 4 chunks of it, not 3.
\<close>

theorem splitDateRange_example_not_three_chunks:
  "map_option length (splitDateRange UTC_zone ''2023-10-01'' ''2024-01-01'' 30) \<noteq> Some 3"
  by (simp add: splitDateRange_example_window [OF constant_offset_UTC_zone])

text \<open>
  Claim C5, amended. On a host whose time zone keeps one offset from UTC, splitting the window
  2023-10-01 to 2024-01-01 with chunk size 30 gives exactly the 4 chunks 2023-10-01 to
  2023-10-30, 2023-10-31 to 2023-11-29, 2023-11-30 to 2023-12-29 and 2023-12-30 to 2024-01-01,
  no two of which have a day in common.
\<close>

theorem splitDateRange_example_four_chunks:
  assumes "constant_offset tz"
  shows "\<exists>cs. splitDateRange tz ''2023-10-01'' ''2024-01-01'' 30 = Some cs \<and>
           cs = [\<lparr>chunk_from = ''2023-10-01'', chunk_to = ''2023-10-30''\<rparr>,
                 \<lparr>chunk_from = ''2023-10-31'', chunk_to = ''2023-11-29''\<rparr>,
                 \<lparr>chunk_from = ''2023-11-30'', chunk_to = ''2023-12-29''\<rparr>,
                 \<lparr>chunk_from = ''2023-12-30'', chunk_to = ''2024-01-01''\<rparr>] \<and>
           length cs = 4 \<and> disjoint_chunks cs"
  by (simp add: splitDateRange_example_window [OF assms] chunk_interval_example_window)

theorem splitDateRange_example_four_chunks_witness:
  "map_option length (splitDateRange UTC_zone ''2023-10-01'' ''2024-01-01'' 30) = Some 4"
  using splitDateRange_example_four_chunks [OF constant_offset_UTC_zone] by auto

subsection \<open>A host with daylight saving time\<close>

lemma parse_march_2024:
  "Date_parse ''2024-03-01'' = Some 1709251200000"
  "Date_parse ''2024-03-29'' = Some 1711670400000"
  "Date_parse ''2024-03-30'' = Some 1711756800000"
  by code_simp+

lemma New_York_march_2024:
  "setDate_getDate_plus New_York_2024 1709251200000 29 = 1711753200000"
  "setDate_getDate_plus New_York_2024 1711753200000 1 = 1711839600000"
  by (simp_all add: setDate_getDate_plus_def New_York_2024_def UTC_time_def LocalTime_def
      MakeDate_def Day_def TimeWithinDay_def msPerDay_def msPerHour_def dst_start_2024_def
      dst_end_2024_def)

lemma split_loop_march_2024:
  "split_loop New_York_2024 1709251200000 1711756800000 30 [] =
     Some [(1709251200000, 1711753200000)]"
  by (simp add: split_loop.simps New_York_march_2024)

lemma iso_march_2024:
  "iso_date 1709251200000 = ''2024-03-01''"
  "iso_date 1711753200000 = ''2024-03-29''"
  by code_simp+

text \<open>
  Claim C4 at a failing input. The host is in America/New\_York and the range is 2024-03-01 to
  2024-03-30 with chunk size 30. The start is midnight UTC, 19:00 the evening before in New
  York; \<open>setDate\<close> moves it by 29 local days across the start of daylight saving time, to
  2024-03-29T23:00Z, which \<open>toISOString\<close> renders as 2024-03-29. The next start,
  2024-03-30T23:00Z, is after the end, so the only chunk is 2024-03-01 to 2024-03-29 and the
  day 2024-03-30 is in no chunk.
\<close>

theorem splitDateRange_dst_day_lost:
  "splitDateRange New_York_2024 ''2024-03-01'' ''2024-03-30'' 30 =
     Some [\<lparr>chunk_from = ''2024-03-01'', chunk_to = ''2024-03-29''\<rparr>] \<and>
   Date_parse ''2024-03-30'' = Some 1711756800000 \<and>
   Day 1711756800000 \<notin> chunk_interval \<lparr>chunk_from = ''2024-03-01'', chunk_to = ''2024-03-29''\<rparr>"
  by (simp add: splitDateRange_def parse_march_2024 split_loop_march_2024 iso_march_2024
      chunk_interval_def Day_def msPerDay_def)

lemma parse_year_2024:
  "Date_parse ''2024-03-05'' = Some 1709596800000"
  "Date_parse ''2024-12-29'' = Some 1735430400000"
  "Date_parse ''2024-09-20'' = Some 1726790400000"
  by code_simp+

lemma New_York_year_2024:
  "setDate_getDate_plus New_York_2024 1709596800000 99 = 1718146800000"
  "setDate_getDate_plus New_York_2024 1718146800000 1 = 1718233200000"
  "setDate_getDate_plus New_York_2024 1718233200000 99 = 1726786800000"
  "setDate_getDate_plus New_York_2024 1726786800000 1 = 1726873200000"
  "setDate_getDate_plus New_York_2024 1726873200000 99 = 1735430400000"
  "setDate_getDate_plus New_York_2024 1735430400000 1 = 1735516800000"
  by (simp_all add: setDate_getDate_plus_def New_York_2024_def UTC_time_def LocalTime_def
      MakeDate_def Day_def TimeWithinDay_def msPerDay_def msPerHour_def dst_start_2024_def
      dst_end_2024_def)

lemma split_loop_year_2024:
  "split_loop New_York_2024 1709596800000 1735430400000 100 [] =
     Some [(1709596800000, 1718146800000), (1718233200000, 1726786800000),
           (1726873200000, 1735430400000)]"
  by (simp add: split_loop.simps New_York_year_2024)

lemma iso_year_2024:
  "iso_date 1709596800000 = ''2024-03-05''"
  "iso_date 1718146800000 = ''2024-06-11''"
  "iso_date 1718233200000 = ''2024-06-12''"
  "iso_date 1726786800000 = ''2024-09-19''"
  "iso_date 1726873200000 = ''2024-09-20''"
  "iso_date 1735430400000 = ''2024-12-29''"
  by code_simp+

text \<open>
  Claim C10 at a failing input, by the same defect as the lost day above: local-time
  \<open>setDate\<close> against UTC dates. The host is in America/New\_York and the range is 2024-03-05
  to 2024-12-29 with chunk size 100. After the start of daylight saving time the chunks start
  at 23:00Z; the third one starts at 2024-09-20T23:00Z and, daylight saving time having ended,
  ends at 2024-12-29T00:00Z. Its dates, 2024-09-20 to 2024-12-29, span 101 days.
\<close>

theorem splitDateRange_dst_long_chunk:
  "splitDateRange New_York_2024 ''2024-03-05'' ''2024-12-29'' 100 =
     Some [\<lparr>chunk_from = ''2024-03-05'', chunk_to = ''2024-06-11''\<rparr>,
           \<lparr>chunk_from = ''2024-06-12'', chunk_to = ''2024-09-19''\<rparr>,
           \<lparr>chunk_from = ''2024-09-20'', chunk_to = ''2024-12-29''\<rparr>] \<and>
   card (chunk_interval \<lparr>chunk_from = ''2024-09-20'', chunk_to = ''2024-12-29''\<rparr>) = 101"
  by (simp add: splitDateRange_def parse_year_2024 split_loop_year_2024 iso_year_2024
      chunk_interval_def Day_def msPerDay_def)

subsection \<open>A host with a constant offset from UTC\<close>

lemma split_loop_constant_step:
  assumes "constant_offset tz" and "a \<le> b"
  shows "split_loop tz (a * msPerDay) (b * msPerDay) m acc =
           split_loop tz ((min (a + m - 1) b + 1) * msPerDay) (b * msPerDay) m
             (acc @ [at_midnight (a, min (a + m - 1) b)])"
proof -
  have pos: "0 < msPerDay" by (simp add: msPerDay_def)
  have le: "a * msPerDay \<le> b * msPerDay"
    using assms(2) pos by simp
  have e0: "setDate_getDate_plus tz (a * msPerDay) (m - 1) = (a + m - 1) * msPerDay"
    by (simp add: setDate_getDate_plus_constant [OF assms(1)] algebra_simps)
  have clamp: "(if (a + m - 1) * msPerDay > b * msPerDay then b * msPerDay
                else (a + m - 1) * msPerDay) = min (a + m - 1) b * msPerDay"
    using pos by (simp add: min_def)
  have nxt: "setDate_getDate_plus tz (min (a + m - 1) b * msPerDay) 1 =
      (min (a + m - 1) b + 1) * msPerDay"
    by (simp add: setDate_getDate_plus_constant [OF assms(1)] algebra_simps)
  show ?thesis
    by (subst split_loop.simps) (simp add: le e0 clamp nxt at_midnight_def Let_def)
qed

lemma split_loop_constant:
  assumes "constant_offset tz" and "1 \<le> m"
  shows "\<exists>cs. split_loop tz (a * msPerDay) (b * msPerDay) m acc = Some (acc @ map at_midnight cs)
              \<and> day_tiling a b m cs"
proof (induction "nat (b + 1 - a)" arbitrary: a acc rule: less_induct)
  case less
  show ?case
  proof (cases "a \<le> b")
    case False
    have pos: "0 < msPerDay" by (simp add: msPerDay_def)
    from False have "\<not> a * msPerDay \<le> b * msPerDay"
      using pos by simp
    then have "split_loop tz (a * msPerDay) (b * msPerDay) m acc = Some acc"
      by (subst split_loop.simps) simp
    with False show ?thesis
      by (intro exI [of _ "[]"]) simp
  next
    case True
    let ?y = "min (a + m - 1) b"
    have smaller: "nat (b + 1 - (?y + 1)) < nat (b + 1 - a)"
      using True assms(2) by (simp add: min_def)
    from less [OF smaller, of "acc @ [at_midnight (a, ?y)]"] obtain cs where
      loop: "split_loop tz ((?y + 1) * msPerDay) (b * msPerDay) m (acc @ [at_midnight (a, ?y)]) =
               Some ((acc @ [at_midnight (a, ?y)]) @ map at_midnight cs)" and
      tiling: "day_tiling (?y + 1) b m cs"
      by blast
    have "split_loop tz (a * msPerDay) (b * msPerDay) m acc =
        Some (acc @ map at_midnight ((a, ?y) # cs))"
      using split_loop_constant_step [OF assms(1) True, of m acc] loop by simp
    moreover have "day_tiling a b m ((a, ?y) # cs)"
      using True tiling by simp
    ultimately show ?thesis by blast
  qed
qed

lemma day_tiling_nonempty: "day_tiling a b m cs \<Longrightarrow> a \<le> b \<Longrightarrow> cs \<noteq> []"
  by (cases cs) auto

lemma day_tiling_bounds:
  assumes "day_tiling a b m cs" and "1 \<le> m" and "c \<in> set cs"
  shows "a \<le> fst c \<and> fst c \<le> snd c \<and> snd c \<le> b \<and> snd c - fst c + 1 \<le> m"
  using assms
proof (induction cs arbitrary: a)
  case Nil
  then show ?case by simp
next
  case (Cons x cs)
  show ?case
  proof (cases "c = x")
    case True
    with Cons.prems show ?thesis by (auto simp add: min_def)
  next
    case False
    with Cons.prems(3) have mem: "c \<in> set cs" by simp
    from Cons.prems(1) have x: "fst x = a" "a \<le> b" "snd x = min (a + m - 1) b" and
      rest: "day_tiling (snd x + 1) b m cs"
      unfolding day_tiling.simps by blast+
    have "a \<le> snd x"
      using x Cons.prems(2) by (simp add: min_def)
    with Cons.IH [OF rest Cons.prems(2) mem] show ?thesis
      by linarith
  qed
qed

lemma day_tiling_union:
  assumes "day_tiling a b m cs" and "1 \<le> m"
  shows "(\<Union>c \<in> set cs. {fst c .. snd c}) = {a .. b}"
  using assms
proof (induction cs arbitrary: a)
  case Nil
  then show ?case by simp
next
  case (Cons x cs)
  from Cons.prems(1) have x: "fst x = a" "a \<le> b" "snd x = min (a + m - 1) b" and
    rest: "day_tiling (snd x + 1) b m cs"
    unfolding day_tiling.simps by blast+
  have "(\<Union>c \<in> set cs. {fst c .. snd c}) = {snd x + 1 .. b}"
    using Cons.IH [OF rest Cons.prems(2)] .
  moreover have "{a .. snd x} \<union> {snd x + 1 .. b} = {a .. b}"
    using x Cons.prems(2) by (auto simp add: min_def)
  ultimately show ?case
    using x(1) by simp
qed

lemma day_tiling_contiguous:
  assumes "day_tiling a b m cs" and "Suc i < length cs"
  shows "fst (cs ! Suc i) = snd (cs ! i) + 1"
  using assms
proof (induction cs arbitrary: a i)
  case Nil
  then show ?case by simp
next
  case (Cons x cs)
  from Cons.prems(1) have rest: "day_tiling (snd x + 1) b m cs"
    unfolding day_tiling.simps by blast
  show ?case
  proof (cases i)
    case 0
    with Cons.prems(2) obtain y ys where cs: "cs = y # ys" by (cases cs) auto
    with rest have "fst y = snd x + 1" by simp
    with 0 cs show ?thesis by simp
  next
    case (Suc k)
    with Cons.prems have "Suc k < length cs" by simp
    from Cons.IH [OF rest this] Suc show ?thesis by simp
  qed
qed

lemma day_tiling_ordered:
  assumes "day_tiling a b m cs" and "1 \<le> m" and "i < j" and "j < length cs"
  shows "snd (cs ! i) < fst (cs ! j)"
  using assms
proof (induction cs arbitrary: a i j)
  case Nil
  then show ?case by simp
next
  case (Cons x cs)
  from Cons.prems(1) have rest: "day_tiling (snd x + 1) b m cs"
    unfolding day_tiling.simps by blast
  obtain j' where j: "j = Suc j'" using Cons.prems(3) by (cases j) auto
  with Cons.prems(4) have j'len: "j' < length cs" by simp
  show ?case
  proof (cases i)
    case 0
    have "cs ! j' \<in> set cs" using j'len by simp
    from day_tiling_bounds [OF rest Cons.prems(2) this] 0 j show ?thesis by simp
  next
    case (Suc i')
    with Cons.prems(3) j have "i' < j'" by simp
    from Cons.IH [OF rest Cons.prems(2) this j'len] Suc j show ?thesis by simp
  qed
qed

lemma Day_at_midnight: "Day (d * msPerDay) = d"
  by (simp add: Day_def msPerDay_def)

lemma chunk_days_at_midnight: "chunk_days (at_midnight c) = {fst c .. snd c}"
  by (simp add: chunk_days_def at_midnight_def Day_at_midnight)

lemma Date_parse_midnight:
  assumes "Date_parse s = Some t"
  shows "t = Day t * msPerDay"
proof -
  from assms obtain d where "t = MakeDate d 0"
    by (auto simp add: Date_parse_def split: if_splits option.splits)
  then show ?thesis
    by (simp add: MakeDate_def Day_at_midnight)
qed

text \<open>
  On a host whose time zone keeps one offset from UTC the split is as intended: for a valid
  range and a chunk size of at least 1 the loop ends, and its chunks are not empty, each start
  on the day after the one before ended, have no day in common, cover exactly the days of the
  range, and hold at most \<open>m\<close> days each. The chunk size is taken to be at most 97000000
  days: a range ends in the year 9999 at the latest, less than 3000000 days after 1970, so
  that no end of a chunk passes the 10^8 days after which a \<open>Date\<close> is invalid, a limit
  that the time values here do not have.
\<close>

lemma splitDateRange_constant_zone:
  assumes "constant_offset tz" and "1 \<le> m"
    and "Date_parse startDate = Some s" and "Date_parse endDate = Some e" and "s \<le> e"
    and "m \<le> 97000000"
  shows "\<exists>cs. split_loop tz s e m [] = Some cs \<and>
           splitDateRange tz startDate endDate m =
             Some (map (\<lambda>(a, b). \<lparr>chunk_from = iso_date a, chunk_to = iso_date b\<rparr>) cs) \<and>
           cs \<noteq> [] \<and>
           (\<forall>i. Suc i < length cs \<longrightarrow> Day (fst (cs ! Suc i)) = Day (snd (cs ! i)) + 1) \<and>
           (\<forall>i j. i < j \<and> j < length cs \<longrightarrow> chunk_days (cs ! i) \<inter> chunk_days (cs ! j) = {}) \<and>
           (\<Union>c \<in> set cs. chunk_days c) = {Day s .. Day e} \<and>
           (\<forall>c \<in> set cs. int (card (chunk_days c)) \<le> m)"
proof -
  have s: "s = Day s * msPerDay"
    using assms(3) by (rule Date_parse_midnight)
  have e: "e = Day e * msPerDay"
    using assms(4) by (rule Date_parse_midnight)
  have days: "Day s \<le> Day e"
    using assms(5) by (simp add: Day_def msPerDay_def zdiv_mono1)
  from split_loop_constant [OF assms(1,2), of "Day s" "Day e" "[]"] obtain ds where
    loop: "split_loop tz s e m [] = Some (map at_midnight ds)" and
    tiling: "day_tiling (Day s) (Day e) m ds"
    using s e by auto
  let ?cs = "map at_midnight ds"
  have nonempty: "?cs \<noteq> []"
    using day_tiling_nonempty [OF tiling days] by simp
  have contiguous: "Day (fst (?cs ! Suc i)) = Day (snd (?cs ! i)) + 1" if "Suc i < length ?cs" for i
    using day_tiling_contiguous [OF tiling, of i] that
    by (simp add: at_midnight_def Day_at_midnight)
  have disjoint: "chunk_days (?cs ! i) \<inter> chunk_days (?cs ! j) = {}"
    if "i < j \<and> j < length ?cs" for i j
  proof -
    from that have i: "i < length ds" and j: "j < length ds" and ij: "i < j" by simp_all
    have "snd (ds ! i) < fst (ds ! j)"
      using day_tiling_ordered [OF tiling assms(2) ij j] .
    then show ?thesis
      using i j by (auto simp add: chunk_days_at_midnight)
  qed
  have union: "(\<Union>c \<in> set ?cs. chunk_days c) = {Day s .. Day e}"
    using day_tiling_union [OF tiling assms(2)] by (simp add: chunk_days_at_midnight)
  have size: "int (card (chunk_days c)) \<le> m" if "c \<in> set ?cs" for c
  proof -
    from that obtain d where d: "d \<in> set ds" and c: "c = at_midnight d" by auto
    from day_tiling_bounds [OF tiling assms(2) d] show ?thesis
      by (simp add: c chunk_days_at_midnight)
  qed
  have whole: "splitDateRange tz startDate endDate m =
      Some (map (\<lambda>(a, b). \<lparr>chunk_from = iso_date a, chunk_to = iso_date b\<rparr>) ?cs)"
    by (simp add: splitDateRange_def assms(3,4) loop)
  show ?thesis
    using loop whole nonempty contiguous disjoint union size by blast
qed

subsection \<open>Any host\<close>

lemma split_loop_inverted:
  "endT < start \<Longrightarrow> split_loop tz start endT m chunks = Some chunks"
  by (simp add: split_loop.simps)

lemma splitDateRange_inverted:
  assumes "Date_parse startDate = Some start" and "Date_parse endDate = Some endT"
    and "endT < start"
  shows "splitDateRange tz startDate endDate m = Some []"
  using assms by (simp add: splitDateRange_def split_loop_inverted)

section \<open>Properties of the manual sync request\<close>

lemma find_recent_job:
  assumes "\<exists>j \<in> set jobs. is_recent_job env aid j"
  shows "\<exists>j. find (is_recent_job env aid) jobs = Some j"
  using assms by (cases "find (is_recent_job env aid) jobs") (auto simp add: find_None_iff)

lemma parse_example_request:
  "Date_parse ''2024-01-15'' = Some 1705276800000"
  "Date_parse ''2024-02-15'' = Some 1707955200000"
  by code_simp+

lemma format_example_request:
  "is_date_format ''2024-01-15''" "is_date_format ''2024-02-15''"
  by code_simp+

lemma post_sync_manual_example:
  "post_sync_manual example_request_env ''org1'' ''u1'' example_body example_world =
     (Sync_queued ''job-i'' PENDING 1705276800000 1707955200000,
      example_world
        \<lparr>syncJobs :=
           [example_pending_job,
            \<lparr>job_id = ''job-i'', job_adAccountId = ''6f9619ff-8b86-4011-b42d-00c04fc964ff'',
             jobType = ''MANUAL_SYNC'', job_status = PENDING,
             dateFrom = 1705276800000, dateTo = 1707955200000, createdAt = 1706000000000,
             startedAt = None, completedAt = None, job_errorMessage = None, metrics = None\<rparr>],
         id_counter := 2,
         adAccounts := [example_account\<lparr>syncStatus := SYNCING\<rparr>],
         syncQueue :=
           [\<lparr>queue_jobId = Some ''job-i'', queue_priority = Some 1,
             queue_data =
               \<lparr>data_type = ''manual_sync'',
                data_adAccountId = ''6f9619ff-8b86-4011-b42d-00c04fc964ff'',
                data_connectionId = ''c1'', data_customerId = ''1234567890'',
                data_dateFrom = ''2024-01-15'', data_dateTo = ''2024-02-15'',
                data_provider = GOOGLE_ADS, data_organizationId = ''org1'',
                initiatedBy = Some ''u1''\<rparr>\<rparr>]\<rparr>)"
  by (simp add: post_sync_manual_def example_request_env_def example_body_def example_world_def
      example_account_def example_pending_job_def example_connection_def
      connection_findUnique_def is_recent_job_def parse_example_request format_example_request
      adAccount_update_def addSyncJob_def Let_def)

text \<open>
  Claim C2, as stated, fails. The account has a pending job for 2024-01-01 to 2024-01-31,
  created ten minutes before the request; the request for 2024-01-15 to 2024-02-15 overlaps
  it, and is accepted with status 201: a second job record and a queue entry are created.
\<close>

theorem post_sync_manual_overlap_accepted:
  "list_ex (overlapping_active_job example_body) (syncJobs example_world) \<and>
   status_code (fst (post_sync_manual example_request_env ''org1'' ''u1'' example_body
                       example_world)) = 201 \<and>
   length (syncJobs (snd (post_sync_manual example_request_env ''org1'' ''u1'' example_body
                            example_world))) = 2 \<and>
   length (syncQueue (snd (post_sync_manual example_request_env ''org1'' ''u1'' example_body
                             example_world))) = 1"
  unfolding post_sync_manual_example
  by (simp add: overlapping_active_job_def example_body_def example_world_def
      example_pending_job_def parse_example_request)

text \<open>
  Claim C2, amended. If, at the time of the request, the account has a job in status
  \<open>PENDING\<close> or \<open>RUNNING\<close> that was created within the last five minutes, whatever its date
  range, the request is answered with an error status and the store is unchanged: no job
  record and no queue entry are created.
\<close>

theorem post_sync_manual_recent_job_rejected:
  assumes "\<exists>j \<in> set (syncJobs w). is_recent_job env (accountId body) j"
  shows "400 \<le> status_code (fst (post_sync_manual env organizationId userId body w)) \<and>
         snd (post_sync_manual env organizationId userId body w) = w"
proof -
  obtain j where j: "find (is_recent_job env (accountId body)) (syncJobs w) = Some j"
    using find_recent_job [OF assms] by blast
  let ?valid = "is_uuid env (accountId body) \<and> is_date_format (body_dateFrom body)
                  \<and> is_date_format (body_dateTo body)"
  let ?account = "find (\<lambda>a. acc_id a = accountId body \<and> acc_organizationId a = organizationId
                             \<and> isEnabled a) (adAccounts w)"
  have "\<exists>resp. post_sync_manual env organizationId userId body w = (resp, w)
                \<and> 400 \<le> status_code resp"
  proof (cases ?valid)
    case False
    then show ?thesis by (simp add: post_sync_manual_def)
  next
    case valid: True
    show ?thesis
    proof (cases ?account)
      case None
      with valid show ?thesis by (simp add: post_sync_manual_def)
    next
      case account: (Some account)
      then have aid: "acc_id account = accountId body"
        by (auto simp add: find_Some_iff)
      show ?thesis
      proof (cases "connection_findUnique (acc_connectionId account) (connections w)")
        case None
        with valid account show ?thesis by (simp add: post_sync_manual_def)
      next
        case (Some connection)
        with valid account j aid show ?thesis by (simp add: post_sync_manual_def)
      qed
    qed
  qed
  then show ?thesis by auto
qed

theorem post_sync_manual_recent_job_rejected_witness:
  "fst (post_sync_manual example_request_env ''org1'' ''u1'' example_body example_recent_world)
     \<noteq> Sync_queued ''job-i'' PENDING 1705276800000 1707955200000 \<and>
   snd (post_sync_manual example_request_env ''org1'' ''u1'' example_body example_recent_world)
     = example_recent_world"
proof -
  have "\<exists>j \<in> set (syncJobs example_recent_world).
          is_recent_job example_request_env (accountId example_body) j"
    by (simp add: example_recent_world_def example_world_def example_pending_job_def
        example_request_env_def example_body_def is_recent_job_def)
  from post_sync_manual_recent_job_rejected [OF this, of "''org1''" "''u1''"]
  show ?thesis by auto
qed

section \<open>Properties of the sync job\<close>

subsection \<open>The fact upsert\<close>

lemma measures_overwritten:
  "(old :: measures)\<lparr>impressions := impressions ms, clicks := clicks ms, spend := spend ms,
      conversions := conversions ms, conversionValue := conversionValue ms\<rparr> = ms"
  by simp

lemma metricsFact_upsert_present:
  assumes "metricsFact_findUnique k facts \<noteq> None"
  shows "metricsFact_upsert k ms facts =
           map (\<lambda>f. if fact_key f = k then \<lparr>fact_key = k, fact_measures = ms\<rparr> else f) facts"
proof -
  have "f\<lparr>fact_measures := ms\<rparr> = \<lparr>fact_key = k, fact_measures = ms\<rparr>"
    if "fact_key f = k" for f :: MetricsFact
    using that by (cases f) simp
  then show ?thesis
    using assms by (simp add: metricsFact_upsert_def measures_overwritten cong: if_cong)
qed

lemma metricsFact_upsert_absent:
  assumes "metricsFact_findUnique k facts = None"
  shows "metricsFact_upsert k ms facts = facts @ [\<lparr>fact_key = k, fact_measures = ms\<rparr>]"
  using assms by (simp add: metricsFact_upsert_def)

lemma metricsFact_find_upsert:
  "metricsFact_findUnique k (metricsFact_upsert k ms facts) =
     Some \<lparr>fact_key = k, fact_measures = ms\<rparr>"
proof (cases "metricsFact_findUnique k facts")
  case None
  then have "\<forall>f \<in> set facts. fact_key f \<noteq> k"
    by (simp add: metricsFact_findUnique_def find_None_iff)
  then have "find (\<lambda>f. fact_key f = k) (facts @ [\<lparr>fact_key = k, fact_measures = ms\<rparr>]) =
      Some \<lparr>fact_key = k, fact_measures = ms\<rparr>"
    by (induction facts) simp_all
  with None show ?thesis
    by (simp add: metricsFact_upsert_absent metricsFact_findUnique_def)
next
  case (Some f0)
  then have ex: "\<exists>f \<in> set facts. fact_key f = k"
    by (auto simp add: metricsFact_findUnique_def find_Some_iff)
  then have "find (\<lambda>f. fact_key f = k)
      (map (\<lambda>f. if fact_key f = k then \<lparr>fact_key = k, fact_measures = ms\<rparr> else f) facts) =
      Some \<lparr>fact_key = k, fact_measures = ms\<rparr>"
    by (induction facts) auto
  with Some show ?thesis
    by (simp add: metricsFact_upsert_present metricsFact_findUnique_def)
qed

lemma metricsFact_upsert_rows:
  "list_all (\<lambda>f. fact_key f = k \<longrightarrow> fact_measures f = ms) (metricsFact_upsert k ms facts)"
proof (cases "metricsFact_findUnique k facts")
  case None
  then have "\<forall>f \<in> set facts. fact_key f \<noteq> k"
    by (simp add: metricsFact_findUnique_def find_None_iff)
  with None show ?thesis
    by (simp add: metricsFact_upsert_absent list_all_iff)
next
  case (Some f0)
  have "list_all (\<lambda>f. fact_key f = k \<longrightarrow> fact_measures f = ms)
      (map (\<lambda>f. if fact_key f = k then \<lparr>fact_key = k, fact_measures = ms\<rparr> else f) facts)"
    by (induction facts) simp_all
  with Some show ?thesis
    by (simp add: metricsFact_upsert_present)
qed

lemma metricsFact_upsert_other_keys:
  "filter (\<lambda>f. fact_key f \<noteq> k) (metricsFact_upsert k ms facts) =
     filter (\<lambda>f. fact_key f \<noteq> k) facts"
proof (cases "metricsFact_findUnique k facts")
  case None
  then show ?thesis by (simp add: metricsFact_upsert_absent)
next
  case (Some f0)
  have "filter (\<lambda>f. fact_key f \<noteq> k)
      (map (\<lambda>f. if fact_key f = k then \<lparr>fact_key = k, fact_measures = ms\<rparr> else f) facts) =
      filter (\<lambda>f. fact_key f \<noteq> k) facts"
    by (induction facts) simp_all
  with Some show ?thesis by (simp add: metricsFact_upsert_present)
qed

lemma metricsFact_upsert_count:
  "length (filter (\<lambda>f. fact_key f = k) (metricsFact_upsert k ms facts)) =
     max 1 (length (filter (\<lambda>f. fact_key f = k) facts))"
proof (cases "metricsFact_findUnique k facts")
  case None
  then have "\<forall>f \<in> set facts. fact_key f \<noteq> k"
    by (simp add: metricsFact_findUnique_def find_None_iff)
  then have "filter (\<lambda>f. fact_key f = k) facts = []"
    by (simp add: filter_empty_conv)
  with None show ?thesis by (simp add: metricsFact_upsert_absent)
next
  case (Some f0)
  then have "\<exists>f \<in> set facts. fact_key f = k"
    by (auto simp add: metricsFact_findUnique_def find_Some_iff)
  then have pos: "1 \<le> length (filter (\<lambda>f. fact_key f = k) facts)"
    by (induction facts) auto
  have "length (filter (\<lambda>f. fact_key f = k)
      (map (\<lambda>f. if fact_key f = k then \<lparr>fact_key = k, fact_measures = ms\<rparr> else f) facts)) =
      length (filter (\<lambda>f. fact_key f = k) facts)"
    by (induction facts) simp_all
  with Some pos show ?thesis by (simp add: metricsFact_upsert_present)
qed

text \<open>
  Claim C1. Take any table of facts and any grain key, and run the fact upsert for the key
  with measures \<open>m1\<close> and then again with measures \<open>m2\<close>. The row found by the key holds
  exactly \<open>m2\<close>, as does every row with that key, so nothing of \<open>m1\<close> or of an older value is
  added in; the second run adds no row; the rows of other keys are as before. The second run
  alone would have given the same table, so a repeated sync of a day converges.
\<close>

theorem metricsFact_upsert_overwrites:
  "metricsFact_findUnique k (metricsFact_upsert k m2 (metricsFact_upsert k m1 facts)) =
     Some \<lparr>fact_key = k, fact_measures = m2\<rparr> \<and>
   list_all (\<lambda>f. fact_key f = k \<longrightarrow> fact_measures f = m2)
     (metricsFact_upsert k m2 (metricsFact_upsert k m1 facts)) \<and>
   length (metricsFact_upsert k m2 (metricsFact_upsert k m1 facts)) =
     length (metricsFact_upsert k m1 facts) \<and>
   filter (\<lambda>f. fact_key f \<noteq> k) (metricsFact_upsert k m2 (metricsFact_upsert k m1 facts)) =
     filter (\<lambda>f. fact_key f \<noteq> k) facts \<and>
   metricsFact_upsert k m2 (metricsFact_upsert k m1 facts) = metricsFact_upsert k m2 facts"
proof -
  have present: "metricsFact_findUnique k (metricsFact_upsert k m1 facts) \<noteq> None"
    by (simp add: metricsFact_find_upsert)
  have len: "length (metricsFact_upsert k m2 (metricsFact_upsert k m1 facts)) =
      length (metricsFact_upsert k m1 facts)"
    by (simp add: metricsFact_upsert_present [OF present])
  have same: "metricsFact_upsert k m2 (metricsFact_upsert k m1 facts) = metricsFact_upsert k m2 facts"
  proof (cases "metricsFact_findUnique k facts")
    case None
    then have "\<forall>f \<in> set facts. fact_key f \<noteq> k"
      by (simp add: metricsFact_findUnique_def find_None_iff)
    then have "map (\<lambda>f. if fact_key f = k then \<lparr>fact_key = k, fact_measures = m2\<rparr> else f) facts
        = facts"
      by (induction facts) simp_all
    moreover have a: "metricsFact_upsert k m1 facts = facts @ [\<lparr>fact_key = k, fact_measures = m1\<rparr>]"
      using None by (rule metricsFact_upsert_absent)
    moreover have "metricsFact_upsert k m2 (facts @ [\<lparr>fact_key = k, fact_measures = m1\<rparr>]) =
        map (\<lambda>f. if fact_key f = k then \<lparr>fact_key = k, fact_measures = m2\<rparr> else f)
          (facts @ [\<lparr>fact_key = k, fact_measures = m1\<rparr>])"
      using present unfolding a by (rule metricsFact_upsert_present)
    ultimately show ?thesis
      using None by (simp add: metricsFact_upsert_absent)
  next
    case (Some f0)
    then have p: "metricsFact_findUnique k facts \<noteq> None" by simp
    let ?g = "\<lambda>m f. if fact_key f = k then \<lparr>fact_key = k, fact_measures = m\<rparr> else f"
    have a: "metricsFact_upsert k m1 facts = map (?g m1) facts"
      using p by (rule metricsFact_upsert_present)
    have "metricsFact_upsert k m2 (map (?g m1) facts) = map (?g m2) (map (?g m1) facts)"
      using present unfolding a by (rule metricsFact_upsert_present)
    moreover have "map (?g m2) (map (?g m1) facts) = map (?g m2) facts"
      by (induction facts) simp_all
    ultimately show ?thesis
      unfolding a using metricsFact_upsert_present [OF p, of m2] by simp
  qed
  show ?thesis
    using metricsFact_find_upsert [of k m2 "metricsFact_upsert k m1 facts"]
      metricsFact_upsert_rows [of k m2 "metricsFact_upsert k m1 facts"]
      metricsFact_upsert_other_keys [of k m2 "metricsFact_upsert k m1 facts"]
      metricsFact_upsert_other_keys [of k m1 facts] len same
    by simp
qed

theorem metricsFact_upsert_overwrites_witness:
  "metricsFact_upsert example_key example_measures_later
     (metricsFact_upsert example_key example_measures
        [\<lparr>fact_key = example_key,
          fact_measures = \<lparr>impressions = 7, clicks = 0, spend = 0, conversions = 0,
                            conversionValue = 0\<rparr>\<rparr>]) =
   [\<lparr>fact_key = example_key, fact_measures = example_measures_later\<rparr>]"
  using metricsFact_upsert_overwrites [of example_key example_measures_later example_measures
      "[\<lparr>fact_key = example_key,
         fact_measures = \<lparr>impressions = 7, clicks = 0, spend = 0, conversions = 0,
                           conversionValue = 0\<rparr>\<rparr>]"]
  by (simp add: metricsFact_upsert_def metricsFact_findUnique_def example_measures_later_def)

subsection \<open>The same campaign row fetched twice\<close>

lemma campaign_find_upsert:
  assumes "camp_adAccountId created = aid" and "camp_externalId created = ext"
    and "\<And>c. camp_adAccountId (upd c) = camp_adAccountId c"
    and "\<And>c. camp_externalId (upd c) = camp_externalId c"
  shows "campaign_findUnique aid ext (campaign_upsert aid ext created upd cs) =
           Some (case campaign_findUnique aid ext cs of None \<Rightarrow> created | Some c \<Rightarrow> upd c)"
proof (cases "campaign_findUnique aid ext cs")
  case None
  then have "\<forall>c \<in> set cs. \<not> (camp_adAccountId c = aid \<and> camp_externalId c = ext)"
    by (simp add: campaign_findUnique_def find_None_iff)
  then have "find (\<lambda>c. camp_adAccountId c = aid \<and> camp_externalId c = ext) (cs @ [created]) =
      Some created"
    using assms(1,2) by (induction cs) auto
  with None show ?thesis
    by (simp add: campaign_upsert_def campaign_findUnique_def)
next
  case (Some c0)
  then have "find (\<lambda>c. camp_adAccountId c = aid \<and> camp_externalId c = ext)
      (map (\<lambda>c. if camp_adAccountId c = aid \<and> camp_externalId c = ext then upd c else c) cs) =
      Some (upd c0)"
    unfolding campaign_findUnique_def
    by (induction cs) (auto simp add: assms(3,4) split: if_splits)
  with Some show ?thesis
    by (simp add: campaign_upsert_def campaign_findUnique_def)
qed

lemma campaign_metric_step_stores:
  assumes "Date_parse (m_date metric) = Some d"
  shows "\<exists>c w'. campaign_metric_step env job metric (w, n) = (None, w', Suc n) \<and>
           campaign_findUnique (data_adAccountId job) (m_campaignId metric) (campaigns w') = Some c \<and>
           camp_id c =
             (case campaign_findUnique (data_adAccountId job) (m_campaignId metric) (campaigns w) of
                None \<Rightarrow> fresh_id env (id_counter w) | Some c0 \<Rightarrow> camp_id c0) \<and>
           metricsFacts w' =
             metricsFact_upsert
               \<lparr>key_date = d, key_provider = data_provider job,
                key_adAccountId = data_adAccountId job, key_campaignId = camp_id c,
                key_adGroupId = None, key_adId = None\<rparr>
               (measures_of metric) (metricsFacts w)"
proof -
  let ?aid = "data_adAccountId job" and ?ext = "m_campaignId metric"
  let ?created = "\<lparr>camp_id = fresh_id env (id_counter w), camp_adAccountId = ?aid,
      camp_externalId = ?ext, camp_name = m_campaignName metric, camp_status = UNKNOWN\<rparr>"
  let ?upd = "\<lambda>c. c\<lparr>camp_name := m_campaignName metric\<rparr>"
  let ?c = "case campaign_findUnique ?aid ?ext (campaigns w) of None \<Rightarrow> ?created | Some c \<Rightarrow> ?upd c"
  have found: "campaign_findUnique ?aid ?ext (campaign_upsert ?aid ?ext ?created ?upd (campaigns w))
      = Some ?c"
    by (rule campaign_find_upsert) simp_all
  have cid: "camp_id ?c =
      (case campaign_findUnique ?aid ?ext (campaigns w) of
         None \<Rightarrow> fresh_id env (id_counter w) | Some c0 \<Rightarrow> camp_id c0)"
    by (simp split: option.splits)
  show ?thesis
    using assms found cid
    by (cases "campaign_findUnique ?aid ?ext (campaigns w)")
      (simp_all add: campaign_metric_step_def Let_def)
qed

lemma campaign_metric_step_rerun:
  assumes "Date_parse (m_date m1) = Some d" and "m_date m2 = m_date m1"
    and "m_campaignId m2 = m_campaignId m1"
  shows "\<exists>c w1 w2.
           campaign_metric_step env job m1 (w, n) = (None, w1, Suc n) \<and>
           campaign_metric_step env job m2 (w1, Suc n) = (None, w2, Suc (Suc n)) \<and>
           campaign_findUnique (data_adAccountId job) (m_campaignId m1) (campaigns w2) = Some c \<and>
           metricsFact_findUnique
             \<lparr>key_date = d, key_provider = data_provider job,
              key_adAccountId = data_adAccountId job, key_campaignId = camp_id c,
              key_adGroupId = None, key_adId = None\<rparr> (metricsFacts w2) =
           Some \<lparr>fact_key =
                   \<lparr>key_date = d, key_provider = data_provider job,
                    key_adAccountId = data_adAccountId job, key_campaignId = camp_id c,
                    key_adGroupId = None, key_adId = None\<rparr>,
                 fact_measures = measures_of m2\<rparr>"
proof -
  from campaign_metric_step_stores [OF assms(1), of env job w n] obtain c1 w1 where
    s1: "campaign_metric_step env job m1 (w, n) = (None, w1, Suc n)" and
    f1: "campaign_findUnique (data_adAccountId job) (m_campaignId m1) (campaigns w1) = Some c1"
    by blast
  have d2: "Date_parse (m_date m2) = Some d"
    using assms(1,2) by simp
  from campaign_metric_step_stores [OF d2, of env job w1 "Suc n"] obtain c2 w2 where
    s2: "campaign_metric_step env job m2 (w1, Suc n) = (None, w2, Suc (Suc n))" and
    f2: "campaign_findUnique (data_adAccountId job) (m_campaignId m2) (campaigns w2) = Some c2" and
    facts: "metricsFacts w2 =
      metricsFact_upsert
        \<lparr>key_date = d, key_provider = data_provider job,
         key_adAccountId = data_adAccountId job, key_campaignId = camp_id c2,
         key_adGroupId = None, key_adId = None\<rparr>
        (measures_of m2) (metricsFacts w1)"
    by blast
  show ?thesis
    using s1 s2 f2 assms(3) by (auto simp add: facts metricsFact_find_upsert)
qed

subsection \<open>What the two passes leave alone\<close>

lemma campaign_metric_step_frame:
  "syncJobs (fst (snd (campaign_metric_step env job metric s))) = syncJobs (fst s) \<and>
   adAccounts (fst (snd (campaign_metric_step env job metric s))) = adAccounts (fst s)"
  by (simp add: campaign_metric_step_def Let_def split: option.splits)

lemma campaign_loop_frame:
  "syncJobs (fst (snd (campaign_loop env job ms s))) = syncJobs (fst s) \<and>
   adAccounts (fst (snd (campaign_loop env job ms s))) = adAccounts (fst s)"
proof (induction ms arbitrary: s)
  case Nil
  show ?case by simp
next
  case (Cons metric rest)
  obtain r w' n' where step: "campaign_metric_step env job metric s = (r, w', n')"
    by (cases "campaign_metric_step env job metric s")
  have frame: "syncJobs w' = syncJobs (fst s) \<and> adAccounts w' = adAccounts (fst s)"
    using campaign_metric_step_frame [of env job metric s] step by simp
  show ?case
  proof (cases r)
    case None
    with step frame Cons.IH [of "(w', n')"] show ?thesis by simp
  next
    case (Some e)
    with step frame show ?thesis by simp
  qed
qed

lemma adGroup_metric_step_frame:
  "syncJobs (fst (snd (adGroup_metric_step env job metric s))) = syncJobs (fst s) \<and>
   adAccounts (fst (snd (adGroup_metric_step env job metric s))) = adAccounts (fst s)"
  by (simp add: adGroup_metric_step_def Let_def split: option.splits)

lemma adGroup_loop_frame:
  "syncJobs (fst (snd (adGroup_loop env job ms s))) = syncJobs (fst s) \<and>
   adAccounts (fst (snd (adGroup_loop env job ms s))) = adAccounts (fst s)"
proof (induction ms arbitrary: s)
  case Nil
  show ?case by simp
next
  case (Cons metric rest)
  obtain r w' n' where step: "adGroup_metric_step env job metric s = (r, w', n')"
    by (cases "adGroup_metric_step env job metric s")
  have frame: "syncJobs w' = syncJobs (fst s) \<and> adAccounts w' = adAccounts (fst s)"
    using adGroup_metric_step_frame [of env job metric s] step by simp
  show ?case
  proof (cases r)
    case None
    with step frame Cons.IH [of "(w', n')"] show ?thesis by simp
  next
    case (Some e)
    with step frame show ?thesis by simp
  qed
qed

lemma adGroup_pass_frame:
  "syncJobs (fst (adGroup_pass env job s)) = syncJobs (fst s) \<and>
   adAccounts (fst (adGroup_pass env job s)) = adAccounts (fst s)"
proof (cases "fetchAdGroupPerformance env (data_connectionId job) (data_customerId job)
                (data_dateFrom job) (data_dateTo job)")
  case (Inl e)
  then show ?thesis by (simp add: adGroup_pass_def)
next
  case (Inr ms)
  obtain r w' n' where loop: "adGroup_loop env job ms s = (r, w', n')"
    by (cases "adGroup_loop env job ms s")
  with Inr adGroup_loop_frame [of env job ms s] show ?thesis
    by (simp add: adGroup_pass_def)
qed

subsection \<open>A job that has reached the cache purge\<close>

lemma adAccount_exists_update:
  assumes "\<And>a. acc_id (f a) = acc_id a"
  shows "adAccount_exists aid (adAccount_update aid' f accs) = adAccount_exists aid accs"
  unfolding adAccount_exists_def adAccount_update_def
  by (induction accs) (simp_all add: assms)

lemma syncJob_updateMany_none:
  assumes "\<And>j. j \<in> set jobs \<Longrightarrow> \<not> P j"
  shows "syncJob_updateMany P f jobs = jobs"
  unfolding syncJob_updateMany_def using assms by (induction jobs) simp_all

lemma sync_until_purge_success:
  assumes "sync_until_purge env job w = (Inr result, w1)"
  shows "\<exists>df dt. job_dates job = Some (df, dt) \<and>
           adAccount_exists (data_adAccountId job) (adAccounts w1) \<and>
           (\<forall>j \<in> set (syncJobs w1).
              \<not> (job_adAccountId j = data_adAccountId job
                  \<and> job_status j \<in> set [PENDING, RUNNING]
                  \<and> dateFrom j = df \<and> dateTo j = dt)) \<and>
           map job_status (syncJobs w1) =
             map (\<lambda>j. if job_record job j \<and> job_status j \<in> set [PENDING, RUNNING]
                       then COMPLETED else job_status j) (syncJobs w)"
proof -
  let ?aid = "data_adAccountId job"
  let ?run = "\<lambda>j. j\<lparr>job_status := RUNNING, startedAt := Some (time_running env)\<rparr>"
  obtain df dt where d: "job_dates job = Some (df, dt)"
    using assms
    by (cases "job_dates job") (auto simp add: sync_until_purge_def update_job_records_def)
  let ?P = "\<lambda>st j. job_adAccountId j = ?aid \<and> job_status j \<in> set st
                   \<and> dateFrom j = df \<and> dateTo j = dt"
  define wa where "wa = w\<lparr>syncJobs := syncJob_updateMany (?P [PENDING]) ?run (syncJobs w)\<rparr>"
  have s1: "update_job_records job [PENDING] ?run w = (None, wa)"
    by (simp add: update_job_records_def d wa_def)
  have ex: "adAccount_exists ?aid (adAccounts wa)"
    using assms s1 by (auto simp add: sync_until_purge_def update_account_def split: if_splits)
  define wb where
    "wb = wa\<lparr>adAccounts := adAccount_update ?aid (\<lambda>a. a\<lparr>syncStatus := SYNCING\<rparr>) (adAccounts wa)\<rparr>"
  have s2: "update_account job (\<lambda>a. a\<lparr>syncStatus := SYNCING\<rparr>) wa = (None, wb)"
    using ex by (simp add: update_account_def wb_def)
  obtain ms where s3: "fetchCampaignPerformance env (data_connectionId job) (data_customerId job)
      (data_dateFrom job) (data_dateTo job) = Inr ms"
    using assms s1 s2
    by (cases "fetchCampaignPerformance env (data_connectionId job) (data_customerId job)
          (data_dateFrom job) (data_dateTo job)") (auto simp add: sync_until_purge_def)
  obtain r wc n where s4: "campaign_loop env job ms (wb, 0) = (r, wc, n)"
    by (cases "campaign_loop env job ms (wb, 0)")
  have r: "r = None"
    using assms s1 s2 s3 s4 by (cases r) (auto simp add: sync_until_purge_def)
  obtain wd totalRows where s5: "adGroup_pass env job (wc, n) = (wd, totalRows)"
    by (cases "adGroup_pass env job (wc, n)")
  let ?done = "\<lambda>j. j\<lparr>job_status := COMPLETED, completedAt := Some (time_completed env),
      metrics := Some \<lparr>metrics_rowsProcessed = totalRows,
                        metrics_durationMs = time_end env - time_start env\<rparr>\<rparr>"
  define we where "we = wd\<lparr>syncJobs := syncJob_updateMany (?P [RUNNING]) ?done (syncJobs wd)\<rparr>"
  have s6: "update_job_records job [RUNNING] ?done wd = (None, we)"
    by (simp add: update_job_records_def d we_def)
  have jobs_wd: "syncJobs wd = syncJobs wa"
    using campaign_loop_frame [of env job ms "(wb, 0)"] adGroup_pass_frame [of env job "(wc, n)"]
      s4 s5 by (simp add: wb_def)
  have accs_wd: "adAccounts wd = adAccounts wb"
    using campaign_loop_frame [of env job ms "(wb, 0)"] adGroup_pass_frame [of env job "(wc, n)"]
      s4 s5 by simp
  have ex_we: "adAccount_exists ?aid (adAccounts we)"
    using ex by (simp add: we_def accs_wd wb_def adAccount_exists_update)
  define wf where
    "wf = we\<lparr>adAccounts := adAccount_update ?aid
       (\<lambda>a. a\<lparr>syncStatus := SYNCED, lastSyncedAt := Some (time_synced env)\<rparr>) (adAccounts we)\<rparr>"
  have s7: "update_account job
      (\<lambda>a. a\<lparr>syncStatus := SYNCED, lastSyncedAt := Some (time_synced env)\<rparr>) we = (None, wf)"
    using ex_we by (simp add: update_account_def wf_def)
  have w1: "w1 = wf"
    using assms s1 s2 s3 s4 r s5 s6 s7 by (simp add: sync_until_purge_def)
  have ex_w1: "adAccount_exists ?aid (adAccounts w1)"
    using ex_we by (simp add: w1 wf_def adAccount_exists_update)
  have jobs_w1: "syncJobs w1 =
      syncJob_updateMany (?P [RUNNING]) ?done (syncJob_updateMany (?P [PENDING]) ?run (syncJobs w))"
    by (simp add: w1 wf_def we_def jobs_wd wa_def)
  have none: "\<not> ?P [PENDING, RUNNING] j" if "j \<in> set (syncJobs w1)" for j
    using that unfolding jobs_w1 syncJob_updateMany_def
    by (auto split: if_splits)
  have statuses: "map job_status (syncJobs w1) =
      map (\<lambda>j. if job_record job j \<and> job_status j \<in> set [PENDING, RUNNING]
                then COMPLETED else job_status j) (syncJobs w)"
    unfolding jobs_w1 syncJob_updateMany_def by (auto simp add: job_record_def d)
  show ?thesis
    using d ex_w1 none statuses by blast
qed

lemma sync_catch_after_completion:
  assumes "sync_until_purge env job w = (Inr result, w1)"
  shows "sync_catch env job error w1 =
           (Inl error,
            w1\<lparr>adAccounts :=
                 adAccount_update (data_adAccountId job) (\<lambda>a. a\<lparr>syncStatus := ERROR\<rparr>)
                   (adAccounts w1)\<rparr>)"
proof -
  from sync_until_purge_success [OF assms] obtain df dt where
    d: "job_dates job = Some (df, dt)" and
    ex: "adAccount_exists (data_adAccountId job) (adAccounts w1)" and
    none: "\<And>j. j \<in> set (syncJobs w1) \<Longrightarrow>
             \<not> (job_adAccountId j = data_adAccountId job
                 \<and> job_status j \<in> set [PENDING, RUNNING]
                 \<and> dateFrom j = df \<and> dateTo j = dt)"
    by blast
  have "syncJob_updateMany
          (\<lambda>j. job_adAccountId j = data_adAccountId job
                \<and> (job_status j = PENDING \<or> job_status j = RUNNING)
                \<and> dateFrom j = df \<and> dateTo j = dt) f (syncJobs w1) = syncJobs w1" for f
    using none by (intro syncJob_updateMany_none) simp
  then have "update_job_records job [PENDING, RUNNING] f w1 = (None, w1)" for f
    unfolding update_job_records_def d by simp
  then show ?thesis
    using ex by (simp add: sync_catch_def update_account_def)
qed

lemma parse_example_job:
  "Date_parse ''2024-01-01'' = Some 1704067200000"
  "Date_parse ''2024-01-31'' = Some 1706659200000"
  by code_simp+

lemma sync_until_purge_example:
  "sync_until_purge example_sync_env example_job example_world =
     (Inr \<lparr>rowsProcessed = 0, dateRange_from = ''2024-01-01'', dateRange_to = ''2024-01-31'',
           duration = 500\<rparr>,
      example_world
        \<lparr>syncJobs :=
           [example_pending_job
              \<lparr>job_status := COMPLETED, startedAt := Some 1706000100001,
               completedAt := Some 1706000100501,
               metrics := Some \<lparr>metrics_rowsProcessed = 0, metrics_durationMs = 500\<rparr>\<rparr>],
         adAccounts :=
           [example_account\<lparr>syncStatus := SYNCED, lastSyncedAt := Some 1706000100502\<rparr>]\<rparr>)"
  by (simp add: sync_until_purge_def update_job_records_def update_account_def job_dates_def
      parse_example_job example_job_def example_sync_env_def example_world_def
      example_pending_job_def example_account_def adGroup_pass_def syncJob_updateMany_def
      adAccount_update_def adAccount_exists_def)

lemma purge_example:
  "cache_delPattern example_sync_env (purge_pattern example_job) = Some (Error ''Connection is closed.'')"
  by (simp add: example_sync_env_def)

lemma processSyncJob_example:
  "processSyncJob example_sync_env example_job example_world =
     (Inl (Error ''Connection is closed.''),
      example_world
        \<lparr>syncJobs :=
           [example_pending_job
              \<lparr>job_status := COMPLETED, startedAt := Some 1706000100001,
               completedAt := Some 1706000100501,
               metrics := Some \<lparr>metrics_rowsProcessed = 0, metrics_durationMs = 500\<rparr>\<rparr>],
         adAccounts :=
           [example_account\<lparr>syncStatus := ERROR, lastSyncedAt := Some 1706000100502\<rparr>]\<rparr>)"
  unfolding processSyncJob_def sync_try_def sync_until_purge_example purge_example
  by (simp add: sync_catch_def update_job_records_def update_account_def job_dates_def
      parse_example_job example_job_def example_world_def
      example_pending_job_def example_account_def syncJob_updateMany_def
      adAccount_update_def adAccount_exists_def)

text \<open>
  Claim C8, as stated, fails. The job's fact pass has succeeded (the provider had no rows), the
  job's record is marked \<open>COMPLETED\<close> and the account \<open>SYNCED\<close>; then the cache purge fails.
  The failure is not just logged: \<open>processSyncJob\<close> throws it, so the queue sees a failed job,
  and the account is left in status \<open>ERROR\<close>.
\<close>

theorem processSyncJob_purge_error_thrown:
  "fst (sync_until_purge example_sync_env example_job example_world) =
     Inr \<lparr>rowsProcessed = 0, dateRange_from = ''2024-01-01'', dateRange_to = ''2024-01-31'',
          duration = 500\<rparr> \<and>
   fst (processSyncJob example_sync_env example_job example_world) =
     Inl (Error ''Connection is closed.'') \<and>
   map syncStatus (adAccounts (snd (processSyncJob example_sync_env example_job example_world))) =
     [ERROR]"
  unfolding processSyncJob_example sync_until_purge_example by simp

text \<open>
  Claim C8, amended. Let the \<open>try\<close> block of a sync job have come as far as the cache purge:
  the fact pass has succeeded, the job's pending and running records are marked
  \<open>COMPLETED\<close> and the account \<open>SYNCED\<close>. If the purge then fails, the job's records keep
  status \<open>COMPLETED\<close> and no record changes (the handler of the failure marks only pending and
  running records \<open>FAILED\<close>, and there are none left), but the failure is not only logged: the
  account is set to status \<open>ERROR\<close>, and \<open>processSyncJob\<close> throws the error of the purge.
\<close>

theorem processSyncJob_purge_failure:
  assumes "sync_until_purge env job w = (Inr result, w1)"
    and "cache_delPattern env (purge_pattern job) = Some error"
  shows "processSyncJob env job w =
           (Inl error,
            w1\<lparr>adAccounts :=
                 adAccount_update (data_adAccountId job) (\<lambda>a. a\<lparr>syncStatus := ERROR\<rparr>)
                   (adAccounts w1)\<rparr>) \<and>
         adAccount_exists (data_adAccountId job) (adAccounts w1) \<and>
         map job_status (syncJobs (snd (processSyncJob env job w))) =
           map (\<lambda>j. if job_record job j \<and> job_status j \<in> set [PENDING, RUNNING]
                     then COMPLETED else job_status j) (syncJobs w)"
proof -
  have r: "processSyncJob env job w =
      (Inl error,
       w1\<lparr>adAccounts :=
            adAccount_update (data_adAccountId job) (\<lambda>a. a\<lparr>syncStatus := ERROR\<rparr>)
              (adAccounts w1)\<rparr>)"
    using assms sync_catch_after_completion [OF assms(1), of error]
    by (simp add: processSyncJob_def sync_try_def)
  from sync_until_purge_success [OF assms(1)] show ?thesis
    unfolding r by auto
qed

theorem processSyncJob_purge_failure_witness:
  "processSyncJob example_sync_env example_job example_world =
     (Inl (Error ''Connection is closed.''),
      example_world
        \<lparr>syncJobs :=
           [example_pending_job
              \<lparr>job_status := COMPLETED, startedAt := Some 1706000100001,
               completedAt := Some 1706000100501,
               metrics := Some \<lparr>metrics_rowsProcessed = 0, metrics_durationMs = 500\<rparr>\<rparr>],
         adAccounts :=
           [example_account\<lparr>syncStatus := ERROR, lastSyncedAt := Some 1706000100502\<rparr>]\<rparr>)"
  using processSyncJob_purge_failure [OF sync_until_purge_example purge_example]
  by (simp add: example_job_def example_account_def adAccount_update_def)

section \<open>Properties of the access token refresh\<close>





subsection \<open>An error of a fetch in a sync job\<close>








subsection \<open>The example job\<close>






end
